theory Spec2Isabelle
  imports Complex_Main "HOL-Library.Sublist" "HOL-Library.Char_ord" "HOL-Library.List_Lexorder"
    "HOL-Library.Multiset" "HOL-Library.Monad_Syntax"
begin

section \<open>OpenRouter Model Explorer: values of the runtime\<close>

text \<open>
  The program is a Deno script (\<^verbatim>\<open>src/or-models.ts\<close>) with a standalone schema module
  (\<^verbatim>\<open>src/schemas.ts\<close>). Strings are byte lists; the strings the properties below depend on
  are ASCII. A JavaScript number is \<open>NaN\<close>, an infinity or a finite value; finite values
  are exact reals (rounding to binary64 is not modelled, negative zero is zero).
\<close>

subsection \<open>Errors\<close>

text \<open>What the script can see thrown, as far as its \<^verbatim>\<open>catch\<close> blocks tell them apart.\<close>

datatype js_error = NotFound | IOError | TypeError | SyntaxError | ZodError | HttpError int

subsection \<open>Decoded JSON\<close>

text \<open>
  The result of \<^verbatim>\<open>JSON.parse\<close> or \<^verbatim>\<open>response.json()\<close>. An object is a list of
  members, each key once; a key is looked up with \<open>map_of\<close>.
\<close>

datatype json =
    JNull
  | JBool bool
  | JNum real
  | JStr string
  | JArr "json list"
  | JObj "(string \<times> json) list"

subsection \<open>Numbers\<close>

datatype number = NaN | NegInf | Fin real | PosInf

text \<open>The relational operators \<^verbatim>\<open><\<close> and \<^verbatim>\<open>===\<close> on numbers: false as soon as one side is NaN.\<close>

fun num_lt :: "number \<Rightarrow> number \<Rightarrow> bool" where
  "num_lt NaN _ = False"
| "num_lt _ NaN = False"
| "num_lt (Fin a) (Fin b) = (a < b)"
| "num_lt NegInf NegInf = False"
| "num_lt NegInf _ = True"
| "num_lt _ NegInf = False"
| "num_lt PosInf _ = False"
| "num_lt _ PosInf = True"

fun num_eq :: "number \<Rightarrow> number \<Rightarrow> bool" where
  "num_eq NaN _ = False"
| "num_eq _ NaN = False"
| "num_eq a b = (a = b)"

definition num_le :: "number \<Rightarrow> number \<Rightarrow> bool" where
  "num_le a b = (num_lt a b \<or> num_eq a b)"

definition num_ge :: "number \<Rightarrow> number \<Rightarrow> bool" where
  "num_ge a b = num_le b a"

text \<open>Multiplication and division by a positive finite constant, as \<open>formatPrice\<close> uses them.\<close>

fun num_scale :: "number \<Rightarrow> real \<Rightarrow> number" where
  "num_scale (Fin a) c = Fin (a * c)"
| "num_scale x c = x"

fun num_recip :: "number \<Rightarrow> number" where
  "num_recip NaN = NaN"
| "num_recip NegInf = Fin 0"
| "num_recip PosInf = Fin 0"
| "num_recip (Fin a) = (if a = 0 then PosInf else Fin (1 / a))"

definition MAX_SAFE_INTEGER :: number where
  "MAX_SAFE_INTEGER = Fin 9007199254740991"

subsection \<open>Strings\<close>

definition toLowerCase_char :: "char \<Rightarrow> char" where
  "toLowerCase_char c =
     (if CHR ''A'' \<le> c \<and> c \<le> CHR ''Z'' then char_of (of_char c + (32::nat)) else c)"

definition toLowerCase :: "string \<Rightarrow> string" where
  "toLowerCase s = map toLowerCase_char s"

text \<open>\<^verbatim>\<open>s.includes(t)\<close>: \<open>t\<close> occurs in \<open>s\<close> as a contiguous piece.\<close>

definition includes_str :: "string \<Rightarrow> string \<Rightarrow> bool" where
  "includes_str s t = sublist t s"

definition padStart :: "string \<Rightarrow> nat \<Rightarrow> string" where
  "padStart s n = replicate (n - length s) CHR '' '' @ s"

definition padEnd :: "string \<Rightarrow> nat \<Rightarrow> string" where
  "padEnd s n = s @ replicate (n - length s) CHR '' ''"

definition substring0 :: "string \<Rightarrow> nat \<Rightarrow> string" where
  "substring0 s n = take n s"

definition digit_char :: "nat \<Rightarrow> char" where
  "digit_char d = char_of (48 + d)"

fun show_nat :: "nat \<Rightarrow> string" where
  "show_nat n = (if n < 10 then [digit_char n] else show_nat (n div 10) @ [digit_char (n mod 10)])"

declare show_nat.simps [simp del]

text \<open>Template-literal rendering of an integer-valued number.\<close>

definition show_int :: "int \<Rightarrow> string" where
  "show_int i = (if i < 0 then CHR ''-'' # show_nat (nat (- i)) else show_nat (nat i))"

subsection \<open>\<^verbatim>\<open>parseFloat\<close>\<close>

text \<open>
  The built-in reads the longest prefix, after leading white space, that is a
  \<^verbatim>\<open>StrDecimalLiteral\<close>: an optional sign, then \<^verbatim>\<open>Infinity\<close> or digits with an optional
  fraction and an optional exponent; NaN when there is no such prefix.
\<close>

definition is_digit :: "char \<Rightarrow> bool" where
  "is_digit c = (CHR ''0'' \<le> c \<and> c \<le> CHR ''9'')"

definition is_space :: "char \<Rightarrow> bool" where
  "is_space c = (c \<in> set [CHR '' '', CHR 0x09, CHR 0x0A, CHR 0x0B, CHR 0x0C, CHR 0x0D])"

definition digits_val :: "string \<Rightarrow> nat" where
  "digits_val ds = foldl (\<lambda>a c. 10 * a + (of_char c - 48)) 0 ds"

definition pow10 :: "int \<Rightarrow> real" where
  "pow10 e = (if 0 \<le> e then 10 ^ nat e else 1 / 10 ^ nat (- e))"

text \<open>The exponent part \<^verbatim>\<open>e\<close>, sign, digits; 0 when the text does not continue with one.\<close>

definition exponent_part :: "string \<Rightarrow> int" where
  "exponent_part r =
     (case r of
        [] \<Rightarrow> 0
      | c # r' \<Rightarrow>
          if c = CHR ''e'' \<or> c = CHR ''E'' then
            (case r' of
               [] \<Rightarrow> 0
             | s # d \<Rightarrow>
                 if s = CHR ''+'' then
                   (if takeWhile is_digit d = [] then 0 else int (digits_val (takeWhile is_digit d)))
                 else if s = CHR ''-'' then
                   (if takeWhile is_digit d = [] then 0 else - int (digits_val (takeWhile is_digit d)))
                 else int (digits_val (takeWhile is_digit r')))
          else 0)"

definition unsigned_literal :: "string \<Rightarrow> real option" where
  "unsigned_literal u =
     (let ip = takeWhile is_digit u;
          r1 = dropWhile is_digit u;
          fp = (case r1 of [] \<Rightarrow> [] | c # r \<Rightarrow> if c = CHR ''.'' then takeWhile is_digit r else []);
          r2 = (case r1 of [] \<Rightarrow> [] | c # r \<Rightarrow> if c = CHR ''.'' then dropWhile is_digit r else r1)
      in if ip = [] \<and> fp = [] then None
         else Some ((real (digits_val ip) + real (digits_val fp) / 10 ^ length fp)
                    * pow10 (exponent_part r2)))"

definition parseFloat :: "string \<Rightarrow> number" where
  "parseFloat s =
     (let t = dropWhile is_space s;
          neg = (case t of [] \<Rightarrow> False | c # _ \<Rightarrow> c = CHR ''-'');
          u = (case t of [] \<Rightarrow> [] | c # r \<Rightarrow> if c = CHR ''+'' \<or> c = CHR ''-'' then r else t)
      in if prefix ''Infinity'' u then (if neg then NegInf else PosInf)
         else (case unsigned_literal u of
                 None \<Rightarrow> NaN
               | Some v \<Rightarrow> Fin (if neg then - v else v)))"

section \<open>Schemas\<close>

subsection \<open>The validators of the zod library\<close>

text \<open>
  A validator reads the value found at some place of the decoded document, \<open>None\<close> when the
  place is absent (\<^verbatim>\<open>undefined\<close>), and returns the parsed value or fails. An object schema
  reads the listed keys and drops the others.
\<close>

definition z_string :: "json option \<Rightarrow> string option" where
  "z_string v = (case v of Some (JStr s) \<Rightarrow> Some s | _ \<Rightarrow> None)"

definition z_boolean :: "json option \<Rightarrow> bool option" where
  "z_boolean v = (case v of Some (JBool b) \<Rightarrow> Some b | _ \<Rightarrow> None)"

text \<open>
  \<^verbatim>\<open>z.number().int()\<close> depends on the release of the library: zod 3 takes every
  integer-valued number, zod 4 only those in the safe range, up to \<^verbatim>\<open>2^53 - 1\<close> in
  absolute value.
\<close>

datatype zod_release = Zod3 | Zod4

definition safe_integer :: "int \<Rightarrow> bool" where
  "safe_integer i = (\<bar>i\<bar> \<le> 9007199254740991)"

definition z_number_int :: "zod_release \<Rightarrow> json option \<Rightarrow> int option" where
  "z_number_int z v =
     (case v of
        Some (JNum x) \<Rightarrow>
          if of_int \<lfloor>x\<rfloor> = x \<and> (z = Zod4 \<longrightarrow> safe_integer \<lfloor>x\<rfloor>) then Some \<lfloor>x\<rfloor> else None
      | _ \<Rightarrow> None)"

definition z_optional :: "(json option \<Rightarrow> 'a option) \<Rightarrow> json option \<Rightarrow> 'a option option" where
  "z_optional p v = (case v of None \<Rightarrow> Some None | Some j \<Rightarrow> map_option Some (p (Some j)))"

definition z_nullable :: "(json option \<Rightarrow> 'a option) \<Rightarrow> json option \<Rightarrow> 'a option option" where
  "z_nullable p v = (case v of Some JNull \<Rightarrow> Some None | _ \<Rightarrow> map_option Some (p v))"

definition z_array :: "(json option \<Rightarrow> 'a option) \<Rightarrow> json option \<Rightarrow> 'a list option" where
  "z_array p v = (case v of Some (JArr xs) \<Rightarrow> those (map (\<lambda>x. p (Some x)) xs) | _ \<Rightarrow> None)"

text \<open>\<^verbatim>\<open>z.record(z.string(), z.unknown())\<close> and \<^verbatim>\<open>z.record(z.unknown())\<close>: any object.\<close>

definition z_record_unknown :: "json option \<Rightarrow> (string \<times> json) list option" where
  "z_record_unknown v = (case v of Some (JObj kv) \<Rightarrow> Some kv | _ \<Rightarrow> None)"

definition z_object :: "json option \<Rightarrow> (string \<Rightarrow> json option) option" where
  "z_object v = (case v of Some (JObj kv) \<Rightarrow> Some (map_of kv) | _ \<Rightarrow> None)"

subsection \<open>The records of a validated document\<close>

record Architecture =
  modality :: string
  input_modalities :: "string list"
  output_modalities :: "string list"
  tokenizer :: string
  instruct_type :: "string option"

record Pricing =
  prompt :: string
  completion :: string
  request :: "string option"
  image' :: "string option"
  web_search :: "string option"
  internal_reasoning :: "string option"
  input_cache_read :: "string option"
  input_cache_write :: "string option"

text \<open>The pricing of \<^verbatim>\<open>src/schemas.ts\<close>, where \<open>request\<close> and \<open>image\<close> are plain strings.\<close>

record Pricing_s =
  prompt_s :: string
  completion_s :: string
  request_s :: string
  image_s :: string
  web_search_s :: "string option"
  internal_reasoning_s :: "string option"
  input_cache_read_s :: "string option"
  input_cache_write_s :: "string option"

record TopProvider =
  top_context_length :: "int option"
  max_completion_tokens :: "int option"
  is_moderated :: bool

record 'p ModelOf =
  id' :: string
  name :: string
  description :: string
  context_length :: int
  created :: int
  hugging_face_id :: "string option"
  canonical_slug :: string
  architecture :: Architecture
  pricing :: 'p
  top_provider :: TopProvider
  per_request_limits :: "(string \<times> json) list option"
  supported_parameters :: "string list"

type_synonym Model = "Pricing ModelOf"

type_synonym Model_s = "Pricing_s ModelOf"

record 'p OpenRouterModelsOf =
  data :: "'p ModelOf list"

subsection \<open>The schemas of \<^verbatim>\<open>src/or-models.ts\<close>\<close>

text \<open>
  The file imports \<^verbatim>\<open>npm:zod\<close> without a version; \<open>z\<close> is the release the specifier
  resolves to.
\<close>

definition ArchitectureSchema :: "json option \<Rightarrow> Architecture option" where
  "ArchitectureSchema v = do {
     f \<leftarrow> z_object v;
     a \<leftarrow> z_string (f ''modality'');
     b \<leftarrow> z_array z_string (f ''input_modalities'');
     c \<leftarrow> z_array z_string (f ''output_modalities'');
     d \<leftarrow> z_string (f ''tokenizer'');
     e \<leftarrow> z_nullable z_string (f ''instruct_type'');
     Some \<lparr>modality = a, input_modalities = b, output_modalities = c, tokenizer = d,
       instruct_type = e\<rparr>
   }"

definition PricingSchema :: "json option \<Rightarrow> Pricing option" where
  "PricingSchema v = do {
     f \<leftarrow> z_object v;
     a \<leftarrow> z_string (f ''prompt'');
     b \<leftarrow> z_string (f ''completion'');
     c \<leftarrow> z_optional z_string (f ''request'');
     d \<leftarrow> z_optional z_string (f ''image'');
     e \<leftarrow> z_optional z_string (f ''web_search'');
     g \<leftarrow> z_optional z_string (f ''internal_reasoning'');
     h \<leftarrow> z_optional z_string (f ''input_cache_read'');
     i \<leftarrow> z_optional z_string (f ''input_cache_write'');
     Some \<lparr>prompt = a, completion = b, request = c, image' = d, web_search = e,
       internal_reasoning = g, input_cache_read = h, input_cache_write = i\<rparr>
   }"

definition TopProviderSchema :: "zod_release \<Rightarrow> json option \<Rightarrow> TopProvider option" where
  "TopProviderSchema z v = do {
     f \<leftarrow> z_object v;
     a \<leftarrow> z_nullable (z_number_int z) (f ''context_length'');
     b \<leftarrow> z_nullable (z_number_int z) (f ''max_completion_tokens'');
     c \<leftarrow> z_boolean (f ''is_moderated'');
     Some \<lparr>top_context_length = a, max_completion_tokens = b, is_moderated = c\<rparr>
   }"

definition ModelSchema :: "zod_release \<Rightarrow> json option \<Rightarrow> Model option" where
  "ModelSchema z v = do {
     f \<leftarrow> z_object v;
     a \<leftarrow> z_string (f ''id'');
     b \<leftarrow> z_string (f ''name'');
     c \<leftarrow> z_string (f ''description'');
     d \<leftarrow> z_number_int z (f ''context_length'');
     e \<leftarrow> z_number_int z (f ''created'');
     g \<leftarrow> z_nullable z_string (f ''hugging_face_id'');
     h \<leftarrow> z_string (f ''canonical_slug'');
     i \<leftarrow> ArchitectureSchema (f ''architecture'');
     j \<leftarrow> PricingSchema (f ''pricing'');
     k \<leftarrow> TopProviderSchema z (f ''top_provider'');
     l \<leftarrow> z_nullable z_record_unknown (f ''per_request_limits'');
     m \<leftarrow> z_array z_string (f ''supported_parameters'');
     Some \<lparr>id' = a, name = b, description = c, context_length = d, created = e,
       hugging_face_id = g, canonical_slug = h, architecture = i, pricing = j,
       top_provider = k, per_request_limits = l, supported_parameters = m\<rparr>
   }"

definition OpenRouterModelsSchema ::
  "zod_release \<Rightarrow> json option \<Rightarrow> Pricing OpenRouterModelsOf option" where
  "OpenRouterModelsSchema z v = do {
     f \<leftarrow> z_object v;
     a \<leftarrow> z_array (ModelSchema z) (f ''data'');
     Some \<lparr>data = a\<rparr>
   }"

subsection \<open>The schemas of \<^verbatim>\<open>src/schemas.ts\<close>\<close>

text \<open>The file imports zod 3.23.8.\<close>

definition ArchitectureSchema_s :: "json option \<Rightarrow> Architecture option" where
  "ArchitectureSchema_s v = do {
     f \<leftarrow> z_object v;
     a \<leftarrow> z_string (f ''modality'');
     b \<leftarrow> z_array z_string (f ''input_modalities'');
     c \<leftarrow> z_array z_string (f ''output_modalities'');
     d \<leftarrow> z_string (f ''tokenizer'');
     e \<leftarrow> z_nullable z_string (f ''instruct_type'');
     Some \<lparr>modality = a, input_modalities = b, output_modalities = c, tokenizer = d,
       instruct_type = e\<rparr>
   }"

definition PricingSchema_s :: "json option \<Rightarrow> Pricing_s option" where
  "PricingSchema_s v = do {
     f \<leftarrow> z_object v;
     a \<leftarrow> z_string (f ''prompt'');
     b \<leftarrow> z_string (f ''completion'');
     c \<leftarrow> z_string (f ''request'');
     d \<leftarrow> z_string (f ''image'');
     e \<leftarrow> z_optional z_string (f ''web_search'');
     g \<leftarrow> z_optional z_string (f ''internal_reasoning'');
     h \<leftarrow> z_optional z_string (f ''input_cache_read'');
     i \<leftarrow> z_optional z_string (f ''input_cache_write'');
     Some \<lparr>prompt_s = a, completion_s = b, request_s = c, image_s = d, web_search_s = e,
       internal_reasoning_s = g, input_cache_read_s = h, input_cache_write_s = i\<rparr>
   }"

definition TopProviderSchema_s :: "json option \<Rightarrow> TopProvider option" where
  "TopProviderSchema_s v = do {
     f \<leftarrow> z_object v;
     a \<leftarrow> z_nullable (z_number_int Zod3) (f ''context_length'');
     b \<leftarrow> z_nullable (z_number_int Zod3) (f ''max_completion_tokens'');
     c \<leftarrow> z_boolean (f ''is_moderated'');
     Some \<lparr>top_context_length = a, max_completion_tokens = b, is_moderated = c\<rparr>
   }"

definition ModelSchema_s :: "json option \<Rightarrow> Model_s option" where
  "ModelSchema_s v = do {
     f \<leftarrow> z_object v;
     a \<leftarrow> z_string (f ''id'');
     b \<leftarrow> z_string (f ''name'');
     c \<leftarrow> z_string (f ''description'');
     d \<leftarrow> z_number_int Zod3 (f ''context_length'');
     e \<leftarrow> z_number_int Zod3 (f ''created'');
     g \<leftarrow> z_nullable z_string (f ''hugging_face_id'');
     h \<leftarrow> z_string (f ''canonical_slug'');
     i \<leftarrow> ArchitectureSchema_s (f ''architecture'');
     j \<leftarrow> PricingSchema_s (f ''pricing'');
     k \<leftarrow> TopProviderSchema_s (f ''top_provider'');
     l \<leftarrow> z_nullable z_record_unknown (f ''per_request_limits'');
     m \<leftarrow> z_array z_string (f ''supported_parameters'');
     Some \<lparr>id' = a, name = b, description = c, context_length = d, created = e,
       hugging_face_id = g, canonical_slug = h, architecture = i, pricing = j,
       top_provider = k, per_request_limits = l, supported_parameters = m\<rparr>
   }"

definition OpenRouterModelsSchema_s :: "json option \<Rightarrow> Pricing_s OpenRouterModelsOf option" where
  "OpenRouterModelsSchema_s v = do {
     f \<leftarrow> z_object v;
     a \<leftarrow> z_array ModelSchema_s (f ''data'');
     Some \<lparr>data = a\<rparr>
   }"

text \<open>A decoded value passes a schema when \<^verbatim>\<open>parse\<close> returns instead of throwing.\<close>

definition passes :: "(json option \<Rightarrow> 'a option) \<Rightarrow> json \<Rightarrow> bool" where
  "passes schema j = (schema (Some j) \<noteq> None)"

section \<open>The command-line tool, \<^verbatim>\<open>src/or-models.ts\<close>\<close>

subsection \<open>Constants and parsed arguments\<close>


definition CACHE_EXPIRATION_HOURS :: real where
  "CACHE_EXPIRATION_HOURS = 24"

text \<open>
  The object \<^verbatim>\<open>parseArgs\<close> returns. \<open>positional\<close> is \<^verbatim>\<open>args._\<close>, each entry as its
  \<^verbatim>\<open>toString()\<close>; an option that was not given is \<open>False\<close> or \<open>None\<close>; the four bounds
  are the numbers \<^verbatim>\<open>parseArgs\<close> makes of numeric option values.
\<close>

record Args =
  positional :: "string list"
  long_ids :: bool
  free :: bool
  supports_reasoning :: bool
  supports_tools :: bool
  supports_structured_output :: bool
  supports_response_format :: bool
  desc :: bool
  group_by_provider :: bool
  force_refresh :: bool
  invert_price :: bool
  help_flag :: bool
  version_flag :: bool
  sort_by :: string
  output_format :: string
  min_prompt_price :: "number option"
  max_prompt_price :: "number option"
  min_context :: "number option"
  max_context :: "number option"

subsection \<open>Helper functions\<close>

definition getEffectivePrice :: "string \<Rightarrow> string \<Rightarrow> number" where
  "getEffectivePrice priceStr modelId =
     (if modelId = ''openrouter/auto'' then MAX_SAFE_INTEGER else parseFloat priceStr)"

text \<open>
  \<open>now\<close> is the clock reading of \<^verbatim>\<open>new Date()\<close> in milliseconds. A timestamp outside the
  range of \<^verbatim>\<open>Date\<close> gives an invalid date, whose time is NaN: every comparison fails and
  the minutes branch prints the floor of NaN.
\<close>

definition plural :: "int \<Rightarrow> string" where
  "plural n = (if n > 1 then ''s'' else [])"

definition getHumanReadableAge :: "int \<Rightarrow> int \<Rightarrow> string" where
  "getHumanReadableAge now createdTimestamp =
     (if createdTimestamp = 0 then ''Unknown''
      else if \<bar>createdTimestamp * 1000\<bar> > 8640000000000000 then ''NaN min''
      else
        let deltaSeconds = real_of_int (now - createdTimestamp * 1000) / 1000;
            deltaDays = deltaSeconds / (60 * 60 * 24)
        in if deltaDays > 365 then
             (let years = \<lfloor>deltaDays / 365\<rfloor> in ''~'' @ show_int years @ '' yr'' @ plural years)
           else if deltaDays > 30 then
             (let months = \<lfloor>deltaDays / 30\<rfloor> in ''~'' @ show_int months @ '' mn'' @ plural months)
           else if deltaDays \<ge> 1 then
             show_int \<lfloor>deltaDays\<rfloor> @ '' day'' @ plural \<lfloor>deltaDays\<rfloor>
           else
             let deltaHours = deltaSeconds / (60 * 60)
             in if deltaHours \<ge> 1 then
                  show_int \<lfloor>deltaHours\<rfloor> @ '' hr'' @ plural \<lfloor>deltaHours\<rfloor>
                else
                  let deltaMinutes = deltaSeconds / 60
                  in show_int \<lfloor>deltaMinutes\<rfloor> @ '' min'' @ plural \<lfloor>deltaMinutes\<rfloor>)"

subsection \<open>Filtering\<close>

definition checkParam :: "string list \<Rightarrow> Model \<Rightarrow> bool" where
  "checkParam p m = list_ex (\<lambda>sp. sp \<in> set p) (supported_parameters m)"

definition searchTerm :: "Args \<Rightarrow> string option" where
  "searchTerm args = (case positional args of [] \<Rightarrow> None | a # _ \<Rightarrow> Some (toLowerCase a))"

definition matches_search :: "string \<Rightarrow> Model \<Rightarrow> bool" where
  "matches_search term m =
     (includes_str (toLowerCase (id' m)) term \<or>
      includes_str (toLowerCase (name m)) term \<or>
      includes_str (toLowerCase (description m)) term)"

text \<open>One step of the function: \<^verbatim>\<open>if (cond) filtered = filtered.filter(pred)\<close>.\<close>

definition filter_if :: "bool \<Rightarrow> (Model \<Rightarrow> bool) \<Rightarrow> Model list \<Rightarrow> Model list" where
  "filter_if cond pred filtered = (if cond then filter pred filtered else filtered)"

definition filterModels :: "Model list \<Rightarrow> Args \<Rightarrow> Model list" where
  "filterModels models args =
     (let filtered = models;
          filtered = (case searchTerm args of
                        None \<Rightarrow> filtered
                      | Some term \<Rightarrow> filter_if (term \<noteq> []) (matches_search term) filtered);
          filtered = filter_if (free args)
            (\<lambda>m. num_eq (getEffectivePrice (prompt (pricing m)) (id' m)) (Fin 0)) filtered;
          filtered = (case min_prompt_price args of
                        None \<Rightarrow> filtered
                      | Some b \<Rightarrow>
                          filter (\<lambda>m. num_ge (getEffectivePrice (prompt (pricing m)) (id' m)) b)
                            filtered);
          filtered = (case max_prompt_price args of
                        None \<Rightarrow> filtered
                      | Some b \<Rightarrow>
                          filter (\<lambda>m. num_le (getEffectivePrice (prompt (pricing m)) (id' m)) b)
                            filtered);
          filtered = (case min_context args of
                        None \<Rightarrow> filtered
                      | Some b \<Rightarrow>
                          filter (\<lambda>m. num_ge (Fin (real_of_int (context_length m))) b) filtered);
          filtered = (case max_context args of
                        None \<Rightarrow> filtered
                      | Some b \<Rightarrow>
                          filter (\<lambda>m. num_le (Fin (real_of_int (context_length m))) b) filtered);
          filtered = filter_if (supports_reasoning args)
            (checkParam [''reasoning'', ''include_reasoning'']) filtered;
          filtered = filter_if (supports_tools args)
            (checkParam [''tools'', ''tool_choice'']) filtered;
          filtered = filter_if (supports_structured_output args)
            (checkParam [''structured_outputs'']) filtered;
          filtered = filter_if (supports_response_format args)
            (checkParam [''response_format'']) filtered
      in filtered)"

subsection \<open>Sorting\<close>

text \<open>
  A key function of \<open>keyMap\<close> returns a number or a string. \<open>js_lt\<close> is the operator
  \<^verbatim>\<open><\<close> on two keys: numeric on numbers, by code unit on strings. One key function
  returns one kind only, so the two mixed cases do not arise.
\<close>

datatype sortkey = KNum number | KStr string

fun js_lt :: "sortkey \<Rightarrow> sortkey \<Rightarrow> bool" where
  "js_lt (KNum a) (KNum b) = num_lt a b"
| "js_lt (KStr a) (KStr b) = (a < b)"
| "js_lt _ _ = False"

definition js_gt :: "sortkey \<Rightarrow> sortkey \<Rightarrow> bool" where
  "js_gt a b = js_lt b a"

definition keyMap :: "string \<Rightarrow> (Model \<Rightarrow> sortkey) option" where
  "keyMap = map_of
     [(''prompt_price'', \<lambda>m. KNum (getEffectivePrice (prompt (pricing m)) (id' m))),
      (''completion_price'', \<lambda>m. KNum (getEffectivePrice (completion (pricing m)) (id' m))),
      (''context'', \<lambda>m. KNum (Fin (real_of_int (context_length m)))),
      (''created'', \<lambda>m. KNum (Fin (real_of_int (created m)))),
      (''name'', \<lambda>m. KStr (toLowerCase (name m)))]"

text \<open>The comparison function handed to \<^verbatim>\<open>sort\<close>.\<close>

definition compareFn :: "(Model \<Rightarrow> sortkey) \<Rightarrow> bool \<Rightarrow> Model \<Rightarrow> Model \<Rightarrow> int" where
  "compareFn key dsc a b =
     (let valA = key a; valB = key b
      in if js_lt valA valB then (if dsc then 1 else - 1)
         else if js_gt valA valB then (if dsc then - 1 else 1)
         else 0)"

text \<open>
  \<^verbatim>\<open>Array.prototype.sort\<close> is a stable sort: an element moves behind another one only when
  the comparison function returns a positive number for the pair. It is modelled by stable
  insertion; with a comparison function that is a consistent order every stable sort
  returns the same list. With a comparison function that is not one (a NaN key among
  others) the order is the engine's own, and stable insertion need not give it.
\<close>

fun insert_by :: "('a \<Rightarrow> 'a \<Rightarrow> int) \<Rightarrow> 'a \<Rightarrow> 'a list \<Rightarrow> 'a list" where
  "insert_by cmp x [] = [x]"
| "insert_by cmp x (y # ys) = (if cmp x y \<le> 0 then x # y # ys else y # insert_by cmp x ys)"

definition Array_sort :: "('a \<Rightarrow> 'a \<Rightarrow> int) \<Rightarrow> 'a list \<Rightarrow> 'a list" where
  "Array_sort cmp xs = foldr (insert_by cmp) xs []"

text \<open>
  \<open>keyMap\<close> is an object literal, so \<^verbatim>\<open>keyMap[sortBy]\<close> also finds the members it inherits
  from \<^verbatim>\<open>Object.prototype\<close>. Called with a record they give: the record itself or the text
  \<^verbatim>\<open>[object Object]\<close>, which compare as that text; \<^verbatim>\<open>false\<close>, which compares as 0;
  \<^verbatim>\<open>undefined\<close>, which compares as NaN; or, for \<^verbatim>\<open>__defineGetter__\<close> and
  \<^verbatim>\<open>__defineSetter__\<close>, a TypeError, since the second argument is missing. The accessor
  \<^verbatim>\<open>__proto__\<close>, where the runtime keeps it, gives an object that cannot be called.
\<close>

datatype keyfn = Key "Model \<Rightarrow> sortkey" | Throws js_error

definition Object_prototype :: "bool \<Rightarrow> string \<Rightarrow> keyfn option" where
  "Object_prototype proto = map_of
     ([(''constructor'', Key (\<lambda>m. KStr ''[object Object]'')),
       (''toString'', Key (\<lambda>m. KStr ''[object Object]'')),
       (''toLocaleString'', Key (\<lambda>m. KStr ''[object Object]'')),
       (''valueOf'', Key (\<lambda>m. KStr ''[object Object]'')),
       (''hasOwnProperty'', Key (\<lambda>m. KNum (Fin 0))),
       (''isPrototypeOf'', Key (\<lambda>m. KNum (Fin 0))),
       (''propertyIsEnumerable'', Key (\<lambda>m. KNum (Fin 0))),
       (''__lookupGetter__'', Key (\<lambda>m. KNum NaN)),
       (''__lookupSetter__'', Key (\<lambda>m. KNum NaN)),
       (''__defineGetter__'', Throws TypeError),
       (''__defineSetter__'', Throws TypeError)]
      @ (if proto then [(''__proto__'', Throws TypeError)] else []))"

text \<open>\<^verbatim>\<open>keyMap[sortBy]\<close>: an own key first, then the prototype.\<close>

definition keyMap_lookup :: "bool \<Rightarrow> string \<Rightarrow> keyfn option" where
  "keyMap_lookup proto sortBy =
     (case keyMap sortBy of
        Some key \<Rightarrow> Some (Key key)
      | None \<Rightarrow> Object_prototype proto sortBy)"

text \<open>
  The result is the sorted copy, or the error of the comparison function, which
  \<^verbatim>\<open>sort\<close> calls as soon as there are two records. \<open>proto\<close> says whether the runtime keeps
  \<^verbatim>\<open>__proto__\<close>.
\<close>

definition sortModels :: "bool \<Rightarrow> Model list \<Rightarrow> string \<Rightarrow> bool \<Rightarrow> js_error + Model list" where
  "sortModels proto models sortBy dsc =
     (case keyMap_lookup proto sortBy of
        None \<Rightarrow> Inr models
      | Some (Throws e) \<Rightarrow> if length models < 2 then Inr models else Inl e
      | Some (Key key) \<Rightarrow> Inr (Array_sort (compareFn key dsc) models))"

subsection \<open>Output\<close>

text \<open>
  What the script takes from the runtime when it prints: whether the terminal colours of
  \<^verbatim>\<open>@std/fmt/colors\<close> are on, \<^verbatim>\<open>toFixed(2)\<close>, \<^verbatim>\<open>toLocaleString\<close> with no fraction
  digits, and \<^verbatim>\<open>toLocaleString\<close> of an integer in the default locale.
\<close>

record Runtime =
  colors_enabled :: bool
  toFixed2 :: "number \<Rightarrow> string"
  toLocaleString0 :: "number \<Rightarrow> string"
  toLocaleString :: "int \<Rightarrow> string"

definition ansi :: "Runtime \<Rightarrow> nat \<Rightarrow> nat \<Rightarrow> string \<Rightarrow> string" where
  "ansi rt opn cls s =
     (if colors_enabled rt
      then CHR 0x1B # ''['' @ show_nat opn @ ''m'' @ s @ CHR 0x1B # ''['' @ show_nat cls @ ''m''
      else s)"

definition bold :: "Runtime \<Rightarrow> string \<Rightarrow> string" where
  "bold rt = ansi rt 1 22"

definition dim :: "Runtime \<Rightarrow> string \<Rightarrow> string" where
  "dim rt = ansi rt 2 22"

definition green :: "Runtime \<Rightarrow> string \<Rightarrow> string" where
  "green rt = ansi rt 32 39"

definition magenta :: "Runtime \<Rightarrow> string \<Rightarrow> string" where
  "magenta rt = ansi rt 35 39"

text \<open>The infinity sign and the check mark, as UTF-8.\<close>

definition infinity_sign :: string where
  "infinity_sign = [CHR 0xE2, CHR 0x88, CHR 0x9E]"

definition check_mark :: string where
  "check_mark = [CHR 0xE2, CHR 0x9C, CHR 0x85]"

definition formatPrice :: "Runtime \<Rightarrow> string \<Rightarrow> bool \<Rightarrow> string option \<Rightarrow> string" where
  "formatPrice rt priceStr invert modelId =
     (if modelId = Some ''openrouter/auto'' then ''n/a''
      else
        let price = parseFloat priceStr
        in if num_eq price (Fin 0) then (if invert then infinity_sign else ''0.00'')
           else if invert then
             toLocaleString0 rt (num_scale (num_recip price) (1 / 1000000)) @ '' M''
           else toFixed2 rt (num_scale price 1000000))"

definition join :: "string \<Rightarrow> string list \<Rightarrow> string" where
  "join sep xs = (case xs of [] \<Rightarrow> [] | x # r \<Rightarrow> x @ concat (map (\<lambda>y. sep @ y) r))"

definition table_headers :: "Runtime \<Rightarrow> Args \<Rightarrow> string list" where
  "table_headers rt args =
     (let invert = invert_price args
      in map (\<lambda>h. bold rt (magenta rt h))
           [''ID'',
            if invert then ''Prompt (toks/$)'' else ''Prompt ($/M)'',
            if invert then ''Compl. (toks/$)'' else ''Compl. ($/M)'',
            ''Context'', ''Age'', ''Reason'', ''Tools'', ''JSON'', ''Schema''])"

text \<open>The array \<^verbatim>\<open>row\<close> of one model; \<open>now\<close> is the clock when its age is computed.\<close>

definition table_row :: "Runtime \<Rightarrow> Args \<Rightarrow> int \<Rightarrow> Model \<Rightarrow> string list" where
  "table_row rt args now model =
     (let invert = invert_price args;
          params = supported_parameters model
      in [dim rt (padEnd (substring0 (id' model) (if long_ids args then 80 else 45)) 45),
          padStart (formatPrice rt (prompt (pricing model)) invert (Some (id' model))) 6,
          padStart (formatPrice rt (completion (pricing model)) invert (Some (id' model))) 6,
          padStart (toLocaleString rt (context_length model)) 10,
          padStart (getHumanReadableAge now (created model)) 7,
          if ''reasoning'' \<in> set params \<or> ''include_reasoning'' \<in> set params
          then green rt check_mark else ''  '',
          if ''tools'' \<in> set params \<or> ''tool_choice'' \<in> set params
          then green rt check_mark else ''  '',
          if ''response_format'' \<in> set params then green rt check_mark else ''  '',
          if ''structured_outputs'' \<in> set params then green rt check_mark else ''  ''])"

text \<open>The lines printed; \<open>clock i\<close> is the clock while row \<open>i\<close> is built.\<close>

definition outputAsTable :: "Runtime \<Rightarrow> (nat \<Rightarrow> int) \<Rightarrow> Model list \<Rightarrow> Args \<Rightarrow> string list" where
  "outputAsTable rt clock models args =
     join '' | '' (table_headers rt args)
     # map (\<lambda>(i, model). join '' | '' (table_row rt args (clock i) model)) (enumerate 0 models)"

subsection \<open>Fetching\<close>

text \<open>
  What the world answers during one run of \<open>fetchModels\<close>: whether \<^verbatim>\<open>Deno.mkdir\<close>
  throws, what \<^verbatim>\<open>Deno.stat\<close> gives (an error, or the modification time in milliseconds,
  which may be null), the clock, the two reads of the cache file (in the cache branch and
  in the fallback), the response (a transport error, or a status with the decoded body,
  \<open>None\<close> when the body is not JSON) and whether the write of the cache file throws;
  then the release of zod that \<^verbatim>\<open>npm:zod\<close> resolves to, and whether the runtime keeps the
  accessor \<^verbatim>\<open>__proto__\<close> of \<^verbatim>\<open>Object.prototype\<close> (Deno removes it unless it is started
  with \<^verbatim>\<open>--unstable-unsafe-proto\<close>). Every request settles, the script has the permissions
  of its first line, and writes to the terminal succeed.
\<close>

record Env =
  mkdir :: "js_error option"
  stat :: "js_error + int option"
  Date_now :: int
  readTextFile_cache :: "js_error + string"
  readTextFile_fallback :: "js_error + string"
  JSON_parse :: "string \<Rightarrow> json option"
  JSON_stringify :: "Pricing OpenRouterModelsOf \<Rightarrow> string"
  fetch :: "js_error + int \<times> json option"
  writeTextFile :: "js_error option"
  npm_zod :: zod_release
  unsafe_proto :: bool

datatype message =
    LoadingFromCache
  | CacheReadError js_error
  | FetchingFresh
  | ErrorFetching js_error
  | SchemaMismatch
  | ErrorMessage js_error
  | UsingStaleCache
  | CouldNotReadFallback

datatype event =
    Mkdir
  | Stat
  | ReadTextFile
  | Fetch
  | WriteTextFile string
  | ConsoleError message

datatype 'a outcome = Return 'a | Exit int | Throw js_error

type_synonym run = "Model list outcome \<times> event list"

text \<open>The innermost \<^verbatim>\<open>try\<close>: the stale cache, or \<^verbatim>\<open>Deno.exit(1)\<close>.\<close>

definition stale_fallback :: "Env \<Rightarrow> event list \<Rightarrow> run" where
  "stale_fallback env evs =
     (let evs = evs @ [ConsoleError UsingStaleCache, ReadTextFile];
          failed = (Exit 1, evs @ [ConsoleError CouldNotReadFallback])
      in case readTextFile_fallback env of
           Inl _ \<Rightarrow> failed
         | Inr cachedData \<Rightarrow>
             (case JSON_parse env cachedData of
                None \<Rightarrow> failed
              | Some j \<Rightarrow>
                  (case OpenRouterModelsSchema (npm_zod env) (Some j) of
                     None \<Rightarrow> failed
                   | Some v \<Rightarrow> (Return (data v), evs))))"

text \<open>The \<^verbatim>\<open>catch\<close> of the network block.\<close>

definition network_catch :: "Env \<Rightarrow> js_error \<Rightarrow> event list \<Rightarrow> run" where
  "network_catch env error evs =
     stale_fallback env
       (evs @ [ConsoleError (ErrorFetching error)]
            @ (if error = ZodError
               then [ConsoleError SchemaMismatch, ConsoleError (ErrorMessage error)] else []))"

text \<open>The network block, from \<^verbatim>\<open>Fetching fresh model list\<close> on.\<close>

definition network_path :: "Env \<Rightarrow> event list \<Rightarrow> run" where
  "network_path env evs =
     (let evs = evs @ [ConsoleError FetchingFresh, Fetch]
      in case fetch env of
           Inl e \<Rightarrow> network_catch env e evs
         | Inr (status, body) \<Rightarrow>
             if \<not> (200 \<le> status \<and> status \<le> 299) then network_catch env (HttpError status) evs
             else
               (case body of
                  None \<Rightarrow> network_catch env SyntaxError evs
                | Some jsonData \<Rightarrow>
                    (case OpenRouterModelsSchema (npm_zod env) (Some jsonData) of
                       None \<Rightarrow> network_catch env ZodError evs
                     | Some validatedData \<Rightarrow>
                         let evs = evs @ [WriteTextFile (JSON_stringify env validatedData)]
                         in case writeTextFile env of
                              Some e \<Rightarrow> network_catch env e evs
                            | None \<Rightarrow> (Return (data validatedData), evs))))"

text \<open>The \<^verbatim>\<open>catch\<close> of the cache block: a warning unless the error is NotFound, then on.\<close>

definition cache_catch :: "Env \<Rightarrow> js_error \<Rightarrow> event list \<Rightarrow> run" where
  "cache_catch env error evs =
     network_path env (evs @ (if error \<noteq> NotFound then [ConsoleError (CacheReadError error)] else []))"

definition fetchModels :: "bool \<Rightarrow> Env \<Rightarrow> run" where
  "fetchModels forceRefresh env =
     (case mkdir env of
        Some e \<Rightarrow> (Throw e, [Mkdir])
      | None \<Rightarrow>
          let evs = [Mkdir, Stat]
          in case stat env of
               Inl e \<Rightarrow> cache_catch env e evs
             | Inr None \<Rightarrow> cache_catch env TypeError evs
             | Inr (Some mtime) \<Rightarrow>
                 let ageHours = real_of_int (Date_now env - mtime) / (1000 * 60 * 60)
                 in if \<not> forceRefresh \<and> ageHours < CACHE_EXPIRATION_HOURS then
                      (let evs = evs @ [ConsoleError LoadingFromCache, ReadTextFile]
                       in case readTextFile_cache env of
                            Inl e \<Rightarrow> cache_catch env e evs
                          | Inr cachedData \<Rightarrow>
                              (case JSON_parse env cachedData of
                                 None \<Rightarrow> cache_catch env SyntaxError evs
                               | Some jsonData \<Rightarrow>
                                   (case OpenRouterModelsSchema (npm_zod env) (Some jsonData) of
                                      None \<Rightarrow> cache_catch env ZodError evs
                                    | Some v \<Rightarrow> (Return (data v), evs))))
                    else network_path env evs)"

subsection \<open>Main\<close>




section \<open>Auxiliary definitions\<close>

text \<open>The tests of \<open>filterModels\<close> in one predicate: a record is kept when it passes each
  test whose option is set.\<close>

definition keeps :: "Args \<Rightarrow> Model \<Rightarrow> bool" where
  "keeps args m =
     ((case searchTerm args of None \<Rightarrow> True | Some term \<Rightarrow> term \<noteq> [] \<longrightarrow> matches_search term m) \<and>
      (free args \<longrightarrow> num_eq (getEffectivePrice (prompt (pricing m)) (id' m)) (Fin 0)) \<and>
      (case min_prompt_price args of None \<Rightarrow> True
       | Some b \<Rightarrow> num_ge (getEffectivePrice (prompt (pricing m)) (id' m)) b) \<and>
      (case max_prompt_price args of None \<Rightarrow> True
       | Some b \<Rightarrow> num_le (getEffectivePrice (prompt (pricing m)) (id' m)) b) \<and>
      (case min_context args of None \<Rightarrow> True
       | Some b \<Rightarrow> num_ge (Fin (real_of_int (context_length m))) b) \<and>
      (case max_context args of None \<Rightarrow> True
       | Some b \<Rightarrow> num_le (Fin (real_of_int (context_length m))) b) \<and>
      (supports_reasoning args \<longrightarrow> checkParam [''reasoning'', ''include_reasoning''] m) \<and>
      (supports_tools args \<longrightarrow> checkParam [''tools'', ''tool_choice''] m) \<and>
      (supports_structured_output args \<longrightarrow> checkParam [''structured_outputs''] m) \<and>
      (supports_response_format args \<longrightarrow> checkParam [''response_format''] m))"

text \<open>The integers of a record that the schema checks are all in the safe range.\<close>

definition safe_integers :: "'p ModelOf \<Rightarrow> bool" where
  "safe_integers m =
     (safe_integer (context_length m) \<and> safe_integer (created m) \<and>
      (case top_context_length (top_provider m) of None \<Rightarrow> True | Some i \<Rightarrow> safe_integer i) \<and>
      (case max_completion_tokens (top_provider m) of None \<Rightarrow> True | Some i \<Rightarrow> safe_integer i))"

text \<open>
  The three ways \<open>fetchModels\<close> gets a batch, as conditions on the world: a read gives text
  that parses and passes the schema; the cache branch is taken and its read is valid; the
  response has a 2xx status and a valid body and the cache file is written; the read of the
  fallback is valid.
\<close>

definition valid_text :: "Env \<Rightarrow> js_error + string \<Rightarrow> bool" where
  "valid_text env r =
     (case r of
        Inl _ \<Rightarrow> False
      | Inr txt \<Rightarrow>
          (case JSON_parse env txt of
             None \<Rightarrow> False
           | Some j \<Rightarrow> OpenRouterModelsSchema (npm_zod env) (Some j) \<noteq> None))"

definition cache_fresh_ok :: "bool \<Rightarrow> Env \<Rightarrow> bool" where
  "cache_fresh_ok forceRefresh env =
     (case stat env of
        Inr (Some mtime) \<Rightarrow>
          \<not> forceRefresh \<and> Date_now env - mtime < 24 * 60 * 60 * 1000 \<and>
          valid_text env (readTextFile_cache env)
      | _ \<Rightarrow> False)"


definition fallback_ok :: "Env \<Rightarrow> bool" where
  "fallback_ok env = valid_text env (readTextFile_fallback env)"

subsection \<open>Sample inputs\<close>

text \<open>A record with the given id, name and price (prompt and completion alike).\<close>

definition sample_model :: "string \<Rightarrow> string \<Rightarrow> string \<Rightarrow> Model" where
  "sample_model i n p =
     \<lparr>id' = i, name = n, description = [], context_length = 4096, created = 1700000000,
      hugging_face_id = None, canonical_slug = i,
      architecture = \<lparr>modality = ''text->text'', input_modalities = [''text''],
        output_modalities = [''text''], tokenizer = ''GPT'', instruct_type = None\<rparr>,
      pricing = \<lparr>prompt = p, completion = p, request = None, image' = None, web_search = None,
        internal_reasoning = None, input_cache_read = None, input_cache_write = None\<rparr>,
      top_provider = \<lparr>top_context_length = None, max_completion_tokens = None,
        is_moderated = False\<rparr>,
      per_request_limits = None, supported_parameters = []\<rparr>"

text \<open>The arguments of a run without options: the defaults of \<open>main\<close>.\<close>

definition default_args :: Args where
  "default_args =
     \<lparr>positional = [], long_ids = False, free = False, supports_reasoning = False,
      supports_tools = False, supports_structured_output = False,
      supports_response_format = False, desc = False, group_by_provider = False,
      force_refresh = False, invert_price = False, help_flag = False, version_flag = False,
      sort_by = ''created'', output_format = ''table'', min_prompt_price = None,
      max_prompt_price = None, min_context = None, max_context = None\<rparr>"

text \<open>A runtime without colours; its two price formatters are not looked at.\<close>

definition sample_runtime :: Runtime where
  "sample_runtime =
     \<lparr>colors_enabled = False, toFixed2 = (\<lambda>_. ''?''), toLocaleString0 = (\<lambda>_. ''?''),
      toLocaleString = show_int\<rparr>"

text \<open>A decoded document with one record; the members of its pricing object are given.\<close>

definition sample_document :: "(string \<times> json) list \<Rightarrow> json" where
  "sample_document pricing_members =
     JObj [(''data'', JArr [JObj
       [(''id'', JStr ''openai/gpt-4''), (''name'', JStr ''OpenAI: GPT-4''),
        (''description'', JStr ''A model''), (''context_length'', JNum 8191),
        (''created'', JNum 1700000000), (''hugging_face_id'', JNull),
        (''canonical_slug'', JStr ''openai/gpt-4''),
        (''architecture'', JObj [(''modality'', JStr ''text->text''),
           (''input_modalities'', JArr [JStr ''text'']),
           (''output_modalities'', JArr [JStr ''text'']),
           (''tokenizer'', JStr ''GPT''), (''instruct_type'', JNull)]),
        (''pricing'', JObj pricing_members),
        (''top_provider'', JObj [(''context_length'', JNum 8191),
           (''max_completion_tokens'', JNum 4096), (''is_moderated'', JBool True)]),
        (''per_request_limits'', JNull),
        (''supported_parameters'', JArr [JStr ''tools'', JStr ''temperature''])]])]"


text \<open>
  A decoded document with one record whose context length is \<^verbatim>\<open>1e20\<close>, an integer beyond
  the safe range; its pricing has the four string members.
\<close>

definition large_document :: json where
  "large_document =
     JObj [(''data'', JArr [JObj
       [(''id'', JStr ''openai/gpt-4''), (''name'', JStr ''OpenAI: GPT-4''),
        (''description'', JStr ''A model''), (''context_length'', JNum 100000000000000000000),
        (''created'', JNum 1700000000), (''hugging_face_id'', JNull),
        (''canonical_slug'', JStr ''openai/gpt-4''),
        (''architecture'', JObj [(''modality'', JStr ''text->text''),
           (''input_modalities'', JArr [JStr ''text'']),
           (''output_modalities'', JArr [JStr ''text'']),
           (''tokenizer'', JStr ''GPT''), (''instruct_type'', JNull)]),
        (''pricing'', JObj [(''prompt'', JStr ''0.00003''), (''completion'', JStr ''0.00006''),
           (''request'', JStr ''0''), (''image'', JStr ''0'')]),
        (''top_provider'', JObj [(''context_length'', JNum 8191),
           (''max_completion_tokens'', JNum 4096), (''is_moderated'', JBool True)]),
        (''per_request_limits'', JNull),
        (''supported_parameters'', JArr [JStr ''tools'', JStr ''temperature''])]])]"

text \<open>The record the schema of the tool returns for that document.\<close>

definition parsed_sample :: "string \<Rightarrow> string \<Rightarrow> Model" where
  "parsed_sample p c =
     \<lparr>id' = ''openai/gpt-4'', name = ''OpenAI: GPT-4'', description = ''A model'',
      context_length = 8191, created = 1700000000, hugging_face_id = None,
      canonical_slug = ''openai/gpt-4'',
      architecture = \<lparr>modality = ''text->text'', input_modalities = [''text''],
        output_modalities = [''text''], tokenizer = ''GPT'', instruct_type = None\<rparr>,
      pricing = \<lparr>prompt = p, completion = c, request = None, image' = None, web_search = None,
        internal_reasoning = None, input_cache_read = None, input_cache_write = None\<rparr>,
      top_provider = \<lparr>top_context_length = Some 8191, max_completion_tokens = Some 4096,
        is_moderated = True\<rparr>,
      per_request_limits = None, supported_parameters = [''tools'', ''temperature'']\<rparr>"

text \<open>
  A world with a cache written one hour ago and a server that answers 200 with a valid
  document; the cache directory exists and the cache file can be written.
\<close>

definition sample_env :: Env where
  "sample_env =
     \<lparr>mkdir = None, stat = Inr (Some 1700000000000), Date_now = 1700003600000,
      readTextFile_cache = Inr ''cached'', readTextFile_fallback = Inr ''cached'',
      JSON_parse = (\<lambda>s. if s = ''cached''
         then Some (sample_document [(''prompt'', JStr ''0.00003''), (''completion'', JStr ''0.00006'')])
         else None),
      JSON_stringify = (\<lambda>_. ''fresh''),
      fetch = Inr (200, Some (sample_document
         [(''prompt'', JStr ''0.00001''), (''completion'', JStr ''0.00002'')])),
      writeTextFile = None, npm_zod = Zod4, unsafe_proto = False\<rparr>"

section \<open>Properties of the filter\<close>

lemma filter_if_conv: "filter_if c Q xs = filter (\<lambda>m. c \<longrightarrow> Q m) xs"
  by (simp add: filter_if_def)

lemma case_option_filter_conv:
  "(case b of None \<Rightarrow> xs | Some v \<Rightarrow> filter (Q v) xs)
   = filter (\<lambda>m. case b of None \<Rightarrow> True | Some v \<Rightarrow> Q v m) xs"
  by (cases b) simp_all

lemma case_option_filter_if_conv:
  "(case b of None \<Rightarrow> xs | Some v \<Rightarrow> filter_if (c v) (Q v) xs)
   = filter (\<lambda>m. case b of None \<Rightarrow> True | Some v \<Rightarrow> c v \<longrightarrow> Q v m) xs"
  by (cases b) (simp_all add: filter_if_def)

text \<open>All active filters combine with a logical and.\<close>

lemma filterModels_keeps: "filterModels models args = filter (keeps args) models"
  unfolding filterModels_def Let_def filter_if_conv case_option_filter_conv
    case_option_filter_if_conv filter_filter keeps_def
  by (rule filter_cong) auto

lemma getEffectivePrice_zero:
  "num_eq (getEffectivePrice p i) (Fin 0)
   \<longleftrightarrow> getEffectivePrice p i = Fin 0 \<and> i \<noteq> ''openrouter/auto''"
  by (cases "getEffectivePrice p i") (auto simp: getEffectivePrice_def MAX_SAFE_INTEGER_def)

lemmas parseFloat_defs =
  parseFloat_def unsigned_literal_def is_space_def is_digit_def digits_val_def pow10_def
  exponent_part_def

text \<open>
  C8. With no filter option set (no search term, no flag, no bound), \<open>filterModels\<close>
  returns its input: the same records in the same order.
\<close>

theorem filterModels_no_filters:
  assumes "positional args = []" and "\<not> free args"
    and "min_prompt_price args = None" and "max_prompt_price args = None"
    and "min_context args = None" and "max_context args = None"
    and "\<not> supports_reasoning args" and "\<not> supports_tools args"
    and "\<not> supports_structured_output args" and "\<not> supports_response_format args"
  shows "filterModels models args = models"
  using assms by (simp add: filterModels_def searchTerm_def filter_if_def)

theorem filterModels_no_filters_witness:
  "filterModels [sample_model ''a/b'' ''B'' ''0.5'', sample_model ''a/a'' ''A'' ''0'']
     default_args
   = [sample_model ''a/b'' ''B'' ''0.5'', sample_model ''a/a'' ''A'' ''0'']"
  by (rule filterModels_no_filters) (simp_all add: default_args_def)

text \<open>
  C4. With the free filter active, \<open>filterModels\<close> keeps exactly the records that the
  other active filters keep and whose effective prompt price is exactly 0 and whose id is
  not the sentinel \<^verbatim>\<open>openrouter/auto\<close>. With the free filter alone, that is: a record is
  kept if and only if its effective prompt price is 0 and it is not the sentinel.
\<close>

theorem filterModels_free:
  assumes "free args"
  shows "filterModels models args =
     filter (\<lambda>m. getEffectivePrice (prompt (pricing m)) (id' m) = Fin 0
                  \<and> id' m \<noteq> ''openrouter/auto'')
       (filterModels models (args\<lparr>free := False\<rparr>))"
  unfolding filterModels_keeps filter_filter
  using assms
  by (intro filter_cong refl) (auto simp: keeps_def searchTerm_def getEffectivePrice_zero)

text \<open>Prices \<^verbatim>\<open>"0"\<close>, \<^verbatim>\<open>"0.000001"\<close>, \<^verbatim>\<open>"0.00001"\<close>: the free filter keeps the first only.\<close>

theorem filterModels_free_witness:
  "free (default_args\<lparr>free := True\<rparr>) \<and>
   filterModels [sample_model ''a/zero'' ''Z'' ''0'', sample_model ''a/small'' ''S'' ''0.000001'',
       sample_model ''a/more'' ''M'' ''0.00001''] (default_args\<lparr>free := True\<rparr>)
   = [sample_model ''a/zero'' ''Z'' ''0'']"
  using filterModels_free [of "default_args\<lparr>free := True\<rparr>"
      "[sample_model ''a/zero'' ''Z'' ''0'', sample_model ''a/small'' ''S'' ''0.000001'',
       sample_model ''a/more'' ''M'' ''0.00001'']"]
  by (simp add: default_args_def sample_model_def filterModels_def searchTerm_def filter_if_def
      getEffectivePrice_def parseFloat_defs)

section \<open>Properties of the age string\<close>

lemma floor_ms: "\<lfloor>real_of_int d / real_of_int n\<rfloor> = d div n"
  by (simp add: floor_divide_of_int_eq)

text \<open>
  C2, as the code has it. A created timestamp of 0 renders as \<^verbatim>\<open>Unknown\<close>. A created
  timestamp within the range of \<^verbatim>\<open>Date\<close> (at most 8640000000000 seconds from the epoch,
  either way) is bucketed by \<open>d\<close>, the milliseconds elapsed since then: more than 365 days
  render in years (\<^verbatim>\<open>~N yr\<close>), more than 30 days and at most 365 in months (\<^verbatim>\<open>~N mn\<close>),
  at least 1 day in days, at least 1 hour in hours, anything less in minutes; the unit
  takes an \<^verbatim>\<open>s\<close> when the count exceeds 1. The count is the whole number of units in
  \<open>d\<close>. Any other created timestamp renders as \<^verbatim>\<open>NaN min\<close>.
\<close>

theorem getHumanReadableAge_buckets:
  "getHumanReadableAge now 0 = ''Unknown'' \<and>
   (ts \<noteq> 0 \<and> \<bar>ts\<bar> \<le> 8640000000000 \<longrightarrow>
    getHumanReadableAge now ts =
     (let d = now - ts * 1000
      in if d > 365 * 86400000 then
           ''~'' @ show_int (d div (365 * 86400000)) @ '' yr'' @ plural (d div (365 * 86400000))
         else if d > 30 * 86400000 then
           ''~'' @ show_int (d div (30 * 86400000)) @ '' mn'' @ plural (d div (30 * 86400000))
         else if d \<ge> 86400000 then
           show_int (d div 86400000) @ '' day'' @ plural (d div 86400000)
         else if d \<ge> 3600000 then
           show_int (d div 3600000) @ '' hr'' @ plural (d div 3600000)
         else show_int (d div 60000) @ '' min'' @ plural (d div 60000))) \<and>
   (\<bar>ts\<bar> > 8640000000000 \<longrightarrow> getHumanReadableAge now ts = ''NaN min'')"
proof -
  define d where "d = now - ts * 1000"
  have y: "\<lfloor>real_of_int d / 1000 / (60 * 60 * 24) / 365\<rfloor> = d div (365 * 86400000)"
    using floor_ms [of d 31536000000] by simp
  have m: "\<lfloor>real_of_int d / 1000 / (60 * 60 * 24) / 30\<rfloor> = d div (30 * 86400000)"
    using floor_ms [of d 2592000000] by simp
  have dd: "\<lfloor>real_of_int d / 1000 / (60 * 60 * 24)\<rfloor> = d div 86400000"
    using floor_ms [of d 86400000] by simp
  have h: "\<lfloor>real_of_int d / 1000 / (60 * 60)\<rfloor> = d div 3600000"
    using floor_ms [of d 3600000] by simp
  have mi: "\<lfloor>real_of_int d / 1000 / 60\<rfloor> = d div 60000"
    using floor_ms [of d 60000] by simp
  have c1: "real_of_int d / 1000 / (60 * 60 * 24) > 365 \<longleftrightarrow> d > 365 * 86400000"
    by (auto simp: field_simps)
  have c2: "real_of_int d / 1000 / (60 * 60 * 24) > 30 \<longleftrightarrow> d > 30 * 86400000"
    by (auto simp: field_simps)
  have c3: "real_of_int d / 1000 / (60 * 60 * 24) \<ge> 1 \<longleftrightarrow> d \<ge> 86400000"
    by (auto simp: field_simps)
  have c4: "real_of_int d / 1000 / (60 * 60) \<ge> 1 \<longleftrightarrow> d \<ge> 3600000"
    by (auto simp: field_simps)
  have range: "\<bar>ts * 1000\<bar> > 8640000000000000 \<longleftrightarrow> \<bar>ts\<bar> > 8640000000000"
    by (simp add: abs_mult)
  have "getHumanReadableAge now 0 = ''Unknown''"
    by (simp add: getHumanReadableAge_def)
  moreover have "getHumanReadableAge now ts =
     (let d = now - ts * 1000
      in if d > 365 * 86400000 then
           ''~'' @ show_int (d div (365 * 86400000)) @ '' yr'' @ plural (d div (365 * 86400000))
         else if d > 30 * 86400000 then
           ''~'' @ show_int (d div (30 * 86400000)) @ '' mn'' @ plural (d div (30 * 86400000))
         else if d \<ge> 86400000 then
           show_int (d div 86400000) @ '' day'' @ plural (d div 86400000)
         else if d \<ge> 3600000 then
           show_int (d div 3600000) @ '' hr'' @ plural (d div 3600000)
         else show_int (d div 60000) @ '' min'' @ plural (d div 60000))"
    if "ts \<noteq> 0" and "\<bar>ts\<bar> \<le> 8640000000000"
    using that unfolding getHumanReadableAge_def Let_def d_def [symmetric] range
    by (simp only: y m dd h mi c1 c2 c3 c4 if_False if_True not_less [symmetric]) simp
  moreover have "getHumanReadableAge now ts = ''NaN min''" if "\<bar>ts\<bar> > 8640000000000"
    using that unfolding getHumanReadableAge_def range by auto
  ultimately show ?thesis by blast
qed

text \<open>
  A record created 29.9 days ago renders in days; a created timestamp of minus ten
  trillion seconds is outside the range of \<^verbatim>\<open>Date\<close>.
\<close>

theorem getHumanReadableAge_buckets_witness:
  "(1700000000::int) \<noteq> 0 \<and> \<bar>1700000000::int\<bar> \<le> 8640000000000 \<and>
   getHumanReadableAge 1702583360000 1700000000 = ''29 days'' \<and>
   getHumanReadableAge 1702583360000 0 = ''Unknown'' \<and>
   \<bar>- 10000000000000::int\<bar> > 8640000000000 \<and>
   getHumanReadableAge 1702583360000 (- 10000000000000) = ''NaN min''"
proof -
  have "show_int 29 = ''29''"
    by code_simp
  with getHumanReadableAge_buckets [of 1702583360000 1700000000]
    getHumanReadableAge_buckets [of 1702583360000 "- 10000000000000"]
  show ?thesis
    by (simp add: plural_def)
qed

text \<open>
  A record created exactly 365.0 days ago is not more than 365 days old: it renders in
  months, not as \<^verbatim>\<open>~1 yr\<close>.
\<close>

theorem getHumanReadableAge_365_days:
  "getHumanReadableAge (1700000000 * 1000 + 365 * 86400000) 1700000000 = ''~12 mns'' \<and>
   getHumanReadableAge (1700000000 * 1000 + 365 * 86400000) 1700000000 \<noteq> ''~1 yr''"
  by code_simp

section \<open>Properties of the table view\<close>

lemma formatPrice_sentinel: "formatPrice rt p invert (Some ''openrouter/auto'') = ''n/a''"
  by (simp add: formatPrice_def)

lemma outputAsTable_nth:
  "i < length models \<Longrightarrow>
   outputAsTable rt clock models args ! Suc i = join '' | '' (table_row rt args (clock i) (models ! i))"
  by (simp add: outputAsTable_def nth_enumerate_eq)

text \<open>
  C9. For a record whose id is the sentinel \<^verbatim>\<open>openrouter/auto\<close>, whatever its pricing
  strings, the invert-price flag and the other arguments, the table view shows \<^verbatim>\<open>n/a\<close>
  (padded to the column width of 6) in the prompt-price and in the completion-price
  column: these are the second and third cell of its row, and of the line printed for it.
\<close>

theorem table_sentinel_not_applicable:
  assumes "i < length models" and "id' (models ! i) = ''openrouter/auto''"
  shows "table_row rt args (clock i) (models ! i) ! 1 = ''   n/a'' \<and>
         table_row rt args (clock i) (models ! i) ! 2 = ''   n/a'' \<and>
         (\<exists>c0 rest. outputAsTable rt clock models args ! Suc i
              = join '' | '' (c0 # ''   n/a'' # ''   n/a'' # rest))"
proof -
  obtain c0 rest where
    r: "table_row rt args (clock i) (models ! i) = c0 # ''   n/a'' # ''   n/a'' # rest"
    using assms(2)
    by (simp add: table_row_def Let_def formatPrice_sentinel padStart_def numeral_3_eq_3)
  have "outputAsTable rt clock models args ! Suc i
      = join '' | '' (c0 # ''   n/a'' # ''   n/a'' # rest)"
    using outputAsTable_nth [OF assms(1)] r by simp
  then show ?thesis
    using r by auto
qed

theorem table_sentinel_not_applicable_witness:
  "(0::nat) < length [sample_model ''openrouter/auto'' ''Auto Router'' ''-1''] \<and>
   id' ([sample_model ''openrouter/auto'' ''Auto Router'' ''-1''] ! 0) = ''openrouter/auto'' \<and>
   table_row sample_runtime (default_args\<lparr>invert_price := True\<rparr>) 1700018000000
     ([sample_model ''openrouter/auto'' ''Auto Router'' ''-1''] ! 0) ! 1 = ''   n/a'' \<and>
   table_row sample_runtime (default_args\<lparr>invert_price := True\<rparr>) 1700018000000
     ([sample_model ''openrouter/auto'' ''Auto Router'' ''-1''] ! 0) ! 2 = ''   n/a''"
proof -
  have hyp: "(0::nat) < length [sample_model ''openrouter/auto'' ''Auto Router'' ''-1'']"
    "id' ([sample_model ''openrouter/auto'' ''Auto Router'' ''-1''] ! 0) = ''openrouter/auto''"
    by (simp_all add: sample_model_def)
  from table_sentinel_not_applicable [OF hyp, of sample_runtime
      "default_args\<lparr>invert_price := True\<rparr>" "\<lambda>_. 1700018000000"] hyp
  show ?thesis by blast
qed

section \<open>Properties of the schemas\<close>

lemmas schema_defs =
  OpenRouterModelsSchema_def ModelSchema_def ArchitectureSchema_def PricingSchema_def
  TopProviderSchema_def z_object_def z_array_def z_string_def z_number_int_def z_boolean_def
  z_nullable_def z_optional_def z_record_unknown_def safe_integer_def

lemma parse_sample:
  "OpenRouterModelsSchema z
     (Some (sample_document [(''prompt'', JStr p), (''completion'', JStr c)]))
   = Some \<lparr>data = [parsed_sample p c]\<rparr>"
  by (simp add: sample_document_def schema_defs parsed_sample_def)


lemma z_string_optional_eq:
  "z_string x = Some s \<longleftrightarrow> z_optional z_string x = Some (Some s)"
  by (auto simp: z_string_def z_optional_def split: option.splits json.splits)

lemma ArchitectureSchema_s_eq: "ArchitectureSchema_s = ArchitectureSchema"
  by (rule ext) (simp add: ArchitectureSchema_s_def ArchitectureSchema_def)

lemma TopProviderSchema_s_eq: "TopProviderSchema_s = TopProviderSchema Zod3"
  by (rule ext) (simp add: TopProviderSchema_s_def TopProviderSchema_def)

lemma PricingSchema_s_iff:
  "PricingSchema_s v \<noteq> None
   \<longleftrightarrow> (\<exists>p. PricingSchema v = Some p \<and> request p \<noteq> None \<and> image' p \<noteq> None)"
  unfolding PricingSchema_s_def PricingSchema_def
  by (auto simp: bind_eq_Some_conv bind_eq_None_conv z_string_optional_eq)

lemma ModelSchema_s_iff:
  "ModelSchema_s v \<noteq> None
   \<longleftrightarrow> (\<exists>m. ModelSchema Zod3 v = Some m \<and>
          request (pricing m) \<noteq> None \<and> image' (pricing m) \<noteq> None)"
proof -
  have "PricingSchema_s w = None \<longleftrightarrow>
      (\<forall>p. PricingSchema w = Some p \<longrightarrow> request p = None \<or> image' p = None)" for w
    using PricingSchema_s_iff [of w] by auto
  then show ?thesis
    unfolding ModelSchema_s_def ModelSchema_def ArchitectureSchema_s_eq TopProviderSchema_s_eq
    by (auto simp: bind_eq_Some_conv bind_eq_None_conv)
qed

lemma z_number_int_release:
  "z_number_int z x = Some i
   \<longleftrightarrow> z_number_int Zod3 x = Some i \<and> (z = Zod4 \<longrightarrow> safe_integer i)"
  by (auto simp: z_number_int_def split: option.splits json.splits if_splits)

lemma z_nullable_int_release:
  "z_nullable (z_number_int z) x = Some n
   \<longleftrightarrow> z_nullable (z_number_int Zod3) x = Some n \<and>
        (z = Zod4 \<longrightarrow> (case n of None \<Rightarrow> True | Some i \<Rightarrow> safe_integer i))"
proof (cases n)
  case None
  then show ?thesis
    by (auto simp: z_nullable_def split: option.splits json.splits)
next
  case (Some i)
  have "z_nullable (z_number_int r) x = Some (Some i) \<longleftrightarrow> z_number_int r x = Some i" for r
    by (auto simp: z_nullable_def z_number_int_def split: option.splits json.splits)
  then show ?thesis
    using z_number_int_release [of z x i] Some by simp
qed

lemma TopProviderSchema_release:
  "TopProviderSchema z v = Some t
   \<longleftrightarrow> TopProviderSchema Zod3 v = Some t \<and>
        (z = Zod4 \<longrightarrow>
           (case top_context_length t of None \<Rightarrow> True | Some i \<Rightarrow> safe_integer i) \<and>
           (case max_completion_tokens t of None \<Rightarrow> True | Some i \<Rightarrow> safe_integer i))"
  unfolding TopProviderSchema_def bind_eq_Some_conv
  by (subst (1 2) z_nullable_int_release) auto

lemma ModelSchema_release:
  "ModelSchema z v = Some m
   \<longleftrightarrow> ModelSchema Zod3 v = Some m \<and> (z = Zod4 \<longrightarrow> safe_integers m)"
  unfolding ModelSchema_def bind_eq_Some_conv
  by (subst (1 2) z_number_int_release, subst TopProviderSchema_release)
     (auto simp: safe_integers_def)

lemma those_map_all:
  "(\<exists>ys. those (map f xs) = Some ys \<and> (\<forall>y\<in>set ys. P y))
   \<longleftrightarrow> (\<forall>x\<in>set xs. \<exists>y. f x = Some y \<and> P y)"
  by (induction xs) (auto split: option.splits)

lemma those_map_not_None:
  "those (map f xs) \<noteq> None \<longleftrightarrow> (\<forall>x\<in>set xs. f x \<noteq> None)"
  using those_map_all [of f xs "\<lambda>_. True"] by auto

lemma those_map_refine:
  assumes "\<And>x y. f x = Some y \<longleftrightarrow> g x = Some y \<and> P y"
  shows "those (map f xs) = Some ys
   \<longleftrightarrow> those (map g xs) = Some ys \<and> (\<forall>y\<in>set ys. P y)"
proof (induction xs arbitrary: ys)
  case Nil
  then show ?case by auto
next
  case (Cons x xs)
  show ?case
  proof (cases "f x")
    case None
    then have g: "g x = None \<or> (\<exists>y. g x = Some y \<and> \<not> P y)"
      using assms [of x] by (metis option.exhaust option.distinct(1))
    have "those (map g (x # xs)) = Some ys \<Longrightarrow> \<not> (\<forall>y\<in>set ys. P y)"
      using g by (auto split: option.splits)
    with None show ?thesis by auto
  next
    case (Some y)
    then have gy: "g x = Some y" and Py: "P y"
      using assms [of x y] by simp_all
    show ?thesis
    proof (cases "those (map f xs)")
      case None
      then have "those (map g xs) = Some zs \<Longrightarrow> \<not> (\<forall>y\<in>set zs. P y)" for zs
        using Cons.IH [of zs] by simp
      then show ?thesis
        using Some gy None by (auto split: option.splits)
    next
      case (Some zs)
      then have "those (map g xs) = Some zs" and "\<forall>y\<in>set zs. P y"
        using Cons.IH [of zs] by simp_all
      then show ?thesis
        using \<open>f x = Some y\<close> gy Py Some by auto
    qed
  qed
qed

lemma OpenRouterModelsSchema_release:
  "OpenRouterModelsSchema z w = Some v
   \<longleftrightarrow> OpenRouterModelsSchema Zod3 w = Some v \<and> (z = Zod4 \<longrightarrow> (\<forall>m\<in>set (data v). safe_integers m))"
proof -
  have arr: "z_array (ModelSchema z) u = Some ms
     \<longleftrightarrow> z_array (ModelSchema Zod3) u = Some ms \<and> (\<forall>m\<in>set ms. z = Zod4 \<longrightarrow> safe_integers m)"
    for u ms
    using those_map_refine [of "\<lambda>x. ModelSchema z (Some x)" "\<lambda>x. ModelSchema Zod3 (Some x)"
        "\<lambda>m. z = Zod4 \<longrightarrow> safe_integers m", OF ModelSchema_release]
    by (auto simp: z_array_def split: option.splits json.splits)
  show ?thesis
    unfolding OpenRouterModelsSchema_def bind_eq_Some_conv arr by auto
qed

text \<open>
  C10, as the code has it. The two modules do not define the same validator. Take the
  schema of \<^verbatim>\<open>src/or-models.ts\<close> read with zod 3 as the yardstick. A decoded value passes
  \<open>OpenRouterModelsSchema\<close> of \<^verbatim>\<open>src/schemas.ts\<close> if and only if it passes the yardstick
  and every record's pricing has the string members \<open>request\<close> and \<open>image\<close>. It passes
  \<open>OpenRouterModelsSchema\<close> of \<^verbatim>\<open>src/or-models.ts\<close> if and only if it passes the
  yardstick and, when \<^verbatim>\<open>npm:zod\<close> resolves to zod 4, the integers of every record
  (context length, created, and the two of the top provider) are in the safe range.
\<close>

theorem schemas_compared:
  "(passes OpenRouterModelsSchema_s j
    \<longleftrightarrow> (\<exists>v. OpenRouterModelsSchema Zod3 (Some j) = Some v \<and>
            (\<forall>m\<in>set (data v). request (pricing m) \<noteq> None \<and> image' (pricing m) \<noteq> None))) \<and>
   (passes (OpenRouterModelsSchema z) j
    \<longleftrightarrow> (\<exists>v. OpenRouterModelsSchema Zod3 (Some j) = Some v \<and>
            (z = Zod4 \<longrightarrow> (\<forall>m\<in>set (data v). safe_integers m))))"
proof -
  have arr: "z_array ModelSchema_s w \<noteq> None
    \<longleftrightarrow> (\<exists>ms. z_array (ModelSchema Zod3) w = Some ms \<and>
          (\<forall>m\<in>set ms. request (pricing m) \<noteq> None \<and> image' (pricing m) \<noteq> None))" for w
  proof -
    have "those (map (\<lambda>x. ModelSchema_s (Some x)) xs) \<noteq> None
      \<longleftrightarrow> (\<exists>ms. those (map (\<lambda>x. ModelSchema Zod3 (Some x)) xs) = Some ms \<and>
          (\<forall>m\<in>set ms. request (pricing m) \<noteq> None \<and> image' (pricing m) \<noteq> None))" for xs
      by (simp only: those_map_not_None ModelSchema_s_iff those_map_all)
    then show ?thesis
      by (simp add: z_array_def split: option.splits json.splits)
  qed
  have "OpenRouterModelsSchema_s (Some j) \<noteq> None
    \<longleftrightarrow> (\<exists>f. z_object (Some j) = Some f \<and> z_array ModelSchema_s (f ''data'') \<noteq> None)"
    by (auto simp: OpenRouterModelsSchema_s_def bind_eq_Some_conv bind_eq_None_conv)
  also have "\<dots> \<longleftrightarrow> (\<exists>v. OpenRouterModelsSchema Zod3 (Some j) = Some v \<and>
            (\<forall>m\<in>set (data v). request (pricing m) \<noteq> None \<and> image' (pricing m) \<noteq> None))"
    unfolding arr by (auto simp: OpenRouterModelsSchema_def bind_eq_Some_conv)
  finally have first: "passes OpenRouterModelsSchema_s j
    \<longleftrightarrow> (\<exists>v. OpenRouterModelsSchema Zod3 (Some j) = Some v \<and>
            (\<forall>m\<in>set (data v). request (pricing m) \<noteq> None \<and> image' (pricing m) \<noteq> None))"
    by (simp add: passes_def)
  have second: "passes (OpenRouterModelsSchema z) j
    \<longleftrightarrow> (\<exists>v. OpenRouterModelsSchema Zod3 (Some j) = Some v \<and>
            (z = Zod4 \<longrightarrow> (\<forall>m\<in>set (data v). safe_integers m)))"
    using OpenRouterModelsSchema_release [of z "Some j"] by (auto simp: passes_def)
  from first second show ?thesis by blast
qed

text \<open>
  A document whose pricing has all four members and whose integers are small passes the
  three validators.
\<close>

theorem schemas_compared_witness:
  "passes OpenRouterModelsSchema_s
     (sample_document [(''prompt'', JStr ''0.00003''), (''completion'', JStr ''0.00006''),
        (''request'', JStr ''0''), (''image'', JStr ''0'')]) \<and>
   passes (OpenRouterModelsSchema Zod4)
     (sample_document [(''prompt'', JStr ''0.00003''), (''completion'', JStr ''0.00006''),
        (''request'', JStr ''0''), (''image'', JStr ''0'')]) \<and>
   passes (OpenRouterModelsSchema Zod3)
     (sample_document [(''prompt'', JStr ''0.00003''), (''completion'', JStr ''0.00006''),
        (''request'', JStr ''0''), (''image'', JStr ''0'')])"
proof -
  let ?doc = "sample_document [(''prompt'', JStr ''0.00003''), (''completion'', JStr ''0.00006''),
        (''request'', JStr ''0''), (''image'', JStr ''0'')]"
  have c: "\<exists>v. OpenRouterModelsSchema Zod3 (Some ?doc) = Some v \<and>
      (\<forall>m\<in>set (data v). request (pricing m) \<noteq> None \<and> image' (pricing m) \<noteq> None) \<and>
      (\<forall>m\<in>set (data v). safe_integers m)"
    by (simp add: sample_document_def schema_defs safe_integers_def)
  then have "passes OpenRouterModelsSchema_s ?doc" and "passes (OpenRouterModelsSchema Zod4) ?doc"
    using schemas_compared [of ?doc Zod4] by blast+
  with c show ?thesis by (auto simp: passes_def)
qed

text \<open>
  A document whose pricing has \<open>prompt\<close> and \<open>completion\<close> only passes the schema of the
  tool, whichever release it is read with, and fails the schema of the standalone module.
  A document with the context length \<^verbatim>\<open>1e20\<close> and a full pricing passes the schema of the
  standalone module and fails the schema of the tool read with zod 4.
\<close>

theorem schemas_differ:
  "passes (OpenRouterModelsSchema Zod3)
     (sample_document [(''prompt'', JStr ''0.00003''), (''completion'', JStr ''0.00006'')]) \<and>
   passes (OpenRouterModelsSchema Zod4)
     (sample_document [(''prompt'', JStr ''0.00003''), (''completion'', JStr ''0.00006'')]) \<and>
   \<not> passes OpenRouterModelsSchema_s
     (sample_document [(''prompt'', JStr ''0.00003''), (''completion'', JStr ''0.00006'')]) \<and>
   passes OpenRouterModelsSchema_s large_document \<and>
   \<not> passes (OpenRouterModelsSchema Zod4) large_document"
proof -
  have "passes (OpenRouterModelsSchema z)
     (sample_document [(''prompt'', JStr ''0.00003''), (''completion'', JStr ''0.00006'')])" for z
    by (simp add: passes_def parse_sample)
  moreover have "\<not> passes OpenRouterModelsSchema_s
     (sample_document [(''prompt'', JStr ''0.00003''), (''completion'', JStr ''0.00006'')])"
    by (simp add: passes_def sample_document_def schema_defs OpenRouterModelsSchema_s_def
        ModelSchema_s_def ArchitectureSchema_s_def PricingSchema_s_def TopProviderSchema_s_def)
  moreover have "passes OpenRouterModelsSchema_s large_document"
    by (simp add: passes_def large_document_def schema_defs OpenRouterModelsSchema_s_def
        ModelSchema_s_def ArchitectureSchema_s_def PricingSchema_s_def TopProviderSchema_s_def)
  moreover have "\<not> passes (OpenRouterModelsSchema Zod4) large_document"
    by (simp add: passes_def large_document_def schema_defs)
  ultimately show ?thesis by blast
qed

section \<open>Properties of fetching\<close>

lemma age_ms: "real_of_int d / (1000 * 60 * 60) < CACHE_EXPIRATION_HOURS \<longleftrightarrow> d < 24 * 60 * 60 * 1000"
  by (auto simp: CACHE_EXPIRATION_HOURS_def field_simps)

lemma fst_stale_fallback: "fst (stale_fallback env evs) = fst (stale_fallback env [])"
  by (simp add: stale_fallback_def Let_def split: sum.splits option.splits)

lemma stale_fallback_exit:
  "fst (stale_fallback env evs) = Exit 1 \<longleftrightarrow> \<not> fallback_ok env"
  by (simp add: stale_fallback_def fallback_ok_def valid_text_def Let_def
      split: sum.splits option.splits)


lemma fst_network_catch: "fst (network_catch env e evs) = fst (stale_fallback env [])"
  unfolding network_catch_def by (rule fst_stale_fallback)




lemma fetchModels_network:
  assumes "mkdir env = None" and "\<not> cache_fresh_ok forceRefresh env"
  shows "\<exists>evs. fetchModels forceRefresh env = network_path env evs"
  using assms unfolding fetchModels_def Let_def age_ms
  by (auto simp: cache_fresh_ok_def valid_text_def cache_catch_def
      split: sum.splits option.splits)


lemmas fetch_defs =
  fetchModels_def cache_catch_def network_path_def network_catch_def stale_fallback_def
  CACHE_EXPIRATION_HOURS_def

text \<open>
  C1, as the code has it. On the network path (the cache directory exists and the cache
  branch did not return), when the GET succeeds with a 2xx status and the decoded body
  passes the schema, \<open>fetchModels\<close> returns that validated batch provided the write of the
  cache file succeeds. A failure of the write is caught like a failed fetch: it is logged
  and the result is that of the stale-cache fallback.
\<close>

theorem fetchModels_network_success:
  assumes "mkdir env = None" and "\<not> cache_fresh_ok forceRefresh env"
    and "fetch env = Inr (status, Some j)" and "200 \<le> status" and "status \<le> 299"
    and "OpenRouterModelsSchema (npm_zod env) (Some j) = Some v"
  shows "(writeTextFile env = None \<longrightarrow> fst (fetchModels forceRefresh env) = Return (data v)) \<and>
     (\<forall>e. writeTextFile env = Some e \<longrightarrow>
        fst (fetchModels forceRefresh env) = fst (stale_fallback env []) \<and>
        ConsoleError (ErrorFetching e) \<in> set (snd (fetchModels forceRefresh env)))"
proof -
  obtain evs where f: "fetchModels forceRefresh env = network_path env evs"
    using fetchModels_network [OF assms(1,2)] by blast
  have "fst (network_path env evs) = Return (data v)" if "writeTextFile env = None"
    using that assms(3-6) by (simp add: network_path_def Let_def)
  moreover have "fst (network_path env evs) = fst (stale_fallback env []) \<and>
      ConsoleError (ErrorFetching e) \<in> set (snd (network_path env evs))"
    if "writeTextFile env = Some e" for e
    using that assms(3-6)
    by (simp add: network_path_def Let_def fst_network_catch)
       (simp add: network_catch_def stale_fallback_def Let_def split: sum.splits option.splits)
  ultimately show ?thesis
    unfolding f by blast
qed

text \<open>
  No cache, a 200 answer with a valid body: with a successful write the fetched batch is
  returned; with a failing write and a readable stale cache the cached batch is returned.
\<close>

theorem fetchModels_network_success_witness:
  "fst (fetchModels False (sample_env\<lparr>stat := Inl NotFound\<rparr>))
     = Return [parsed_sample ''0.00001'' ''0.00002''] \<and>
   writeTextFile (sample_env\<lparr>stat := Inl NotFound, writeTextFile := Some IOError\<rparr>) = Some IOError \<and>
   fst (fetchModels False (sample_env\<lparr>stat := Inl NotFound, writeTextFile := Some IOError\<rparr>))
     = Return [parsed_sample ''0.00003'' ''0.00006''] \<and>
   ConsoleError (ErrorFetching IOError)
     \<in> set (snd (fetchModels False (sample_env\<lparr>stat := Inl NotFound, writeTextFile := Some IOError\<rparr>)))"
proof -
  let ?a = "sample_env\<lparr>stat := Inl NotFound\<rparr>"
  let ?b = "sample_env\<lparr>stat := Inl NotFound, writeTextFile := Some IOError\<rparr>"
  let ?doc = "sample_document [(''prompt'', JStr ''0.00001''), (''completion'', JStr ''0.00002'')]"
  have a: "mkdir ?a = None" "\<not> cache_fresh_ok False ?a" "fetch ?a = Inr (200, Some ?doc)"
    "(200::int) \<le> 200" "(200::int) \<le> 299"
    "OpenRouterModelsSchema (npm_zod ?a) (Some ?doc)
       = Some \<lparr>data = [parsed_sample ''0.00001'' ''0.00002'']\<rparr>"
    "writeTextFile ?a = None"
    by (simp_all add: sample_env_def cache_fresh_ok_def parse_sample)
  have b: "mkdir ?b = None" "\<not> cache_fresh_ok False ?b" "fetch ?b = Inr (200, Some ?doc)"
    "writeTextFile ?b = Some IOError"
    "OpenRouterModelsSchema (npm_zod ?b) (Some ?doc)
       = Some \<lparr>data = [parsed_sample ''0.00001'' ''0.00002'']\<rparr>"
    by (simp_all add: sample_env_def cache_fresh_ok_def parse_sample)
  have fb: "fst (stale_fallback ?b []) = Return [parsed_sample ''0.00003'' ''0.00006'']"
    by (simp add: stale_fallback_def sample_env_def parse_sample)
  from fetchModels_network_success [OF a(1-6)] a(7)
  have "fst (fetchModels False ?a) = Return [parsed_sample ''0.00001'' ''0.00002'']"
    by simp
  moreover from fetchModels_network_success [OF b(1-3) a(4,5) b(5)] b(4) fb
  have "fst (fetchModels False ?b) = Return [parsed_sample ''0.00003'' ''0.00006''] \<and>
      ConsoleError (ErrorFetching IOError) \<in> set (snd (fetchModels False ?b))"
    by simp
  ultimately show ?thesis
    using b(4) by blast
qed

text \<open>
  No cache at all, a 200 answer with a valid body, and the write of the cache file fails:
  the run ends with \<^verbatim>\<open>Deno.exit(1)\<close> instead of returning the validated batch.
\<close>

theorem fetchModels_write_failure:
  "mkdir (sample_env\<lparr>stat := Inl NotFound, writeTextFile := Some IOError,
      readTextFile_fallback := Inl NotFound\<rparr>) = None \<and>
   fetch (sample_env\<lparr>stat := Inl NotFound, writeTextFile := Some IOError,
      readTextFile_fallback := Inl NotFound\<rparr>)
     = Inr (200, Some (sample_document [(''prompt'', JStr ''0.00001''), (''completion'', JStr ''0.00002'')])) \<and>
   passes (OpenRouterModelsSchema Zod4)
     (sample_document [(''prompt'', JStr ''0.00001''), (''completion'', JStr ''0.00002'')]) \<and>
   fst (fetchModels False (sample_env\<lparr>stat := Inl NotFound, writeTextFile := Some IOError,
      readTextFile_fallback := Inl NotFound\<rparr>)) = Exit 1"
  by (simp add: sample_env_def passes_def parse_sample fetch_defs)




section \<open>Properties of the exit status\<close>





section \<open>Properties of sorting\<close>

lemma mset_insert_by: "mset (insert_by cmp x ys) = add_mset x (mset ys)"
  by (induction ys) auto

lemma mset_Array_sort: "mset (Array_sort cmp xs) = mset xs"
  by (induction xs) (auto simp: Array_sort_def mset_insert_by)

lemma set_insert_by: "set (insert_by cmp x ys) = insert x (set ys)"
  by (induction ys) auto

lemma set_Array_sort: "set (Array_sort cmp xs) = set xs"
  by (induction xs) (auto simp: Array_sort_def set_insert_by)

lemma Array_sort_Cons: "Array_sort cmp (x # xs) = insert_by cmp x (Array_sort cmp xs)"
  by (simp add: Array_sort_def)

lemma filter_insert_by:
  assumes "\<And>y. y \<in> set ys \<Longrightarrow> P x \<Longrightarrow> P y \<Longrightarrow> cmp x y \<le> 0"
  shows "filter P (insert_by cmp x ys) = (if P x then x # filter P ys else filter P ys)"
  using assms by (induction ys) auto

lemma filter_Array_sort:
  assumes "\<And>x y. x \<in> set xs \<Longrightarrow> y \<in> set xs \<Longrightarrow> P x \<Longrightarrow> P y \<Longrightarrow> cmp x y \<le> 0"
  shows "filter P (Array_sort cmp xs) = filter P xs"
  using assms
proof (induction xs)
  case Nil
  then show ?case by (simp add: Array_sort_def)
next
  case (Cons x xs)
  have "filter P (insert_by cmp x (Array_sort cmp xs))
      = (if P x then x # filter P (Array_sort cmp xs) else filter P (Array_sort cmp xs))"
    by (rule filter_insert_by) (simp add: set_Array_sort Cons.prems)
  then show ?case
    using Cons by (simp add: Array_sort_Cons)
qed

lemma sorted_wrt_insert_by:
  assumes tot: "\<And>a b. a \<in> S \<Longrightarrow> b \<in> S \<Longrightarrow> \<not> cmp a b \<le> 0 \<Longrightarrow> cmp b a \<le> 0"
    and tr: "\<And>a b c. a \<in> S \<Longrightarrow> b \<in> S \<Longrightarrow> c \<in> S
        \<Longrightarrow> cmp a b \<le> 0 \<Longrightarrow> cmp b c \<le> 0 \<Longrightarrow> cmp a c \<le> 0"
  shows "x \<in> S \<Longrightarrow> set ys \<subseteq> S \<Longrightarrow> sorted_wrt (\<lambda>a b. cmp a b \<le> 0) ys
    \<Longrightarrow> sorted_wrt (\<lambda>a b. cmp a b \<le> 0) (insert_by cmp x ys)"
proof (induction ys)
  case Nil
  then show ?case by simp
next
  case (Cons y ys)
  have xS: "x \<in> S" and yS: "y \<in> S" and ysS: "set ys \<subseteq> S"
    using Cons.prems by simp_all
  have y_le: "\<forall>z\<in>set ys. cmp y z \<le> 0" and sorted_ys: "sorted_wrt (\<lambda>a b. cmp a b \<le> 0) ys"
    using Cons.prems(3) by simp_all
  show ?case
  proof (cases "cmp x y \<le> 0")
    case True
    have "cmp x z \<le> 0" if "z \<in> set ys" for z
    proof (rule tr [OF xS yS _ True])
      show "z \<in> S" using that ysS by blast
      show "cmp y z \<le> 0" using that y_le by blast
    qed
    then show ?thesis
      using True y_le sorted_ys by simp
  next
    case False
    have ih: "sorted_wrt (\<lambda>a b. cmp a b \<le> 0) (insert_by cmp x ys)"
      by (rule Cons.IH [OF xS ysS sorted_ys])
    have "cmp y x \<le> 0"
      by (rule tot [OF xS yS False])
    then show ?thesis
      using False ih y_le by (simp add: set_insert_by)
  qed
qed

lemma sorted_wrt_Array_sort:
  assumes tot: "\<And>a b. a \<in> S \<Longrightarrow> b \<in> S \<Longrightarrow> \<not> cmp a b \<le> 0 \<Longrightarrow> cmp b a \<le> 0"
    and tr: "\<And>a b c. a \<in> S \<Longrightarrow> b \<in> S \<Longrightarrow> c \<in> S
        \<Longrightarrow> cmp a b \<le> 0 \<Longrightarrow> cmp b c \<le> 0 \<Longrightarrow> cmp a c \<le> 0"
  shows "set xs \<subseteq> S \<Longrightarrow> sorted_wrt (\<lambda>a b. cmp a b \<le> 0) (Array_sort cmp xs)"
proof (induction xs)
  case Nil
  then show ?case by (simp add: Array_sort_def)
next
  case (Cons x xs)
  have xS: "x \<in> S" and xsS: "set xs \<subseteq> S"
    using Cons.prems by simp_all
  have "sorted_wrt (\<lambda>a b. cmp a b \<le> 0) (insert_by cmp x (Array_sort cmp xs))"
  proof (rule sorted_wrt_insert_by [of S cmp, OF tot tr xS])
    show "set (Array_sort cmp xs) \<subseteq> S"
      using xsS by (simp add: set_Array_sort)
    show "sorted_wrt (\<lambda>a b. cmp a b \<le> 0) (Array_sort cmp xs)"
      by (rule Cons.IH [OF xsS])
  qed
  then show ?case by (simp only: Array_sort_Cons)
qed

text \<open>
  Stable insertion leaves every adjacent pair of its result in order, and returns a list
  with that property unchanged, whenever the comparison function is not positive for a
  pair in both orders.
\<close>

lemma successively_insert_by:
  assumes "successively (\<lambda>a b. cmp a b \<le> 0) ys"
    and "\<And>y. \<not> cmp x y \<le> 0 \<Longrightarrow> cmp y x \<le> 0"
  shows "successively (\<lambda>a b. cmp a b \<le> 0) (insert_by cmp x ys)"
  using assms
proof (induction ys)
  case Nil
  then show ?case by simp
next
  case (Cons y ys)
  then show ?case
    by (cases ys) (auto simp: successively_Cons)
qed

lemma successively_Array_sort:
  assumes "\<And>x y. \<not> cmp x y \<le> 0 \<Longrightarrow> cmp y x \<le> 0"
  shows "successively (\<lambda>a b. cmp a b \<le> 0) (Array_sort cmp xs)"
proof (induction xs)
  case Nil
  then show ?case by (simp add: Array_sort_def)
next
  case (Cons x xs)
  show ?case
    unfolding Array_sort_Cons
    by (rule successively_insert_by [OF Cons.IH]) (rule assms)
qed

lemma Array_sort_fixed:
  "successively (\<lambda>a b. cmp a b \<le> 0) xs \<Longrightarrow> Array_sort cmp xs = xs"
proof (induction xs)
  case Nil
  then show ?case by (simp add: Array_sort_def)
next
  case (Cons x xs)
  then show ?case
    by (cases xs) (auto simp: Array_sort_Cons successively_Cons)
qed

lemma Array_sort_idem:
  assumes "\<And>x y. \<not> cmp x y \<le> 0 \<Longrightarrow> cmp y x \<le> 0"
  shows "Array_sort cmp (Array_sort cmp xs) = Array_sort cmp xs"
  by (rule Array_sort_fixed) (rule successively_Array_sort [OF assms])

lemma num_lt_asym: "num_lt a b \<Longrightarrow> \<not> num_lt b a"
  by (cases a; cases b) auto

lemma js_lt_asym: "js_lt a b \<Longrightarrow> \<not> js_lt b a"
  by (cases a; cases b) (auto dest: num_lt_asym)

lemma js_lt_irrefl: "\<not> js_lt a a"
  using js_lt_asym by blast

lemma compareFn_le: "compareFn key dsc a b \<le> 0
   \<longleftrightarrow> (if dsc then \<not> js_lt (key a) (key b) else \<not> js_lt (key b) (key a))"
  using js_lt_asym [of "key a" "key b"] by (auto simp: compareFn_def js_gt_def Let_def)

lemma compareFn_total: "\<not> compareFn key dsc x y \<le> 0 \<Longrightarrow> compareFn key dsc y x \<le> 0"
  using js_lt_asym by (auto simp: compareFn_le split: if_splits)

lemma num_not_lt_trans:
  "a \<noteq> NaN \<Longrightarrow> b \<noteq> NaN \<Longrightarrow> c \<noteq> NaN \<Longrightarrow> \<not> num_lt b a \<Longrightarrow> \<not> num_lt c b \<Longrightarrow> \<not> num_lt c a"
  by (cases a; cases b; cases c) auto

lemma js_not_lt_trans_num:
  assumes "a = KNum x" "b = KNum y" "c = KNum z" "x \<noteq> NaN" "y \<noteq> NaN" "z \<noteq> NaN"
    and "\<not> js_lt b a" "\<not> js_lt c b"
  shows "\<not> js_lt c a"
  using assms num_not_lt_trans [of x y z] by simp

lemma js_not_lt_trans_str:
  assumes "a = KStr x" "b = KStr y" "c = KStr z"
    and "\<not> js_lt b a" "\<not> js_lt c b"
  shows "\<not> js_lt c a"
  using assms by simp

lemma keyMap_kinds:
  assumes "keyMap sortBy = Some key"
  shows "(\<forall>m. \<exists>x. key m = KNum x) \<or> (\<forall>m. \<exists>s. key m = KStr s)"
  using assms by (auto simp: keyMap_def split: if_splits)

lemma js_not_lt_trans:
  assumes kinds: "(\<forall>m. \<exists>x. key m = KNum x) \<or> (\<forall>m. \<exists>s. key m = KStr s)"
    and "key a \<noteq> KNum NaN" "key b \<noteq> KNum NaN" "key c \<noteq> KNum NaN"
    and "\<not> js_lt (key b) (key a)" "\<not> js_lt (key c) (key b)"
  shows "\<not> js_lt (key c) (key a)"
  using kinds
proof
  assume "\<forall>m. \<exists>x. key m = KNum x"
  then obtain x y z where "key a = KNum x" "key b = KNum y" "key c = KNum z"
    by metis
  with assms(2-) show ?thesis
    using js_not_lt_trans_num [of "key a" x "key b" y "key c" z] by auto
next
  assume "\<forall>m. \<exists>s. key m = KStr s"
  then obtain x y z where "key a = KStr x" "key b = KStr y" "key c = KStr z"
    by metis
  with assms(2-) show ?thesis
    using js_not_lt_trans_str [of "key a" x "key b" y "key c" z] by auto
qed

text \<open>
  C6, as the code has it. For a recognized sort key, either direction and every record
  sequence none of whose keys is NaN (for the two price keys: every price string of a
  record other than the sentinel starts with a number), \<open>sortModels\<close> returns a
  permutation of its input that is ordered by the key (numerically for prompt_price,
  completion_price, context and created, with the effective price for the price keys; by
  the lower-cased name for name), ascending or, with the flag, descending, and in which
  records with equal keys keep their input order.
\<close>

theorem sortModels_stable_ordering:
  assumes "keyMap sortBy = Some key" and "\<forall>m\<in>set models. key m \<noteq> KNum NaN"
  shows "\<exists>result. sortModels proto models sortBy dsc = Inr result \<and>
     mset result = mset models \<and>
     sorted_wrt (\<lambda>a b. if dsc then \<not> js_lt (key a) (key b) else \<not> js_lt (key b) (key a))
       result \<and>
     (\<forall>k. filter (\<lambda>m. key m = k) result = filter (\<lambda>m. key m = k) models)"
proof -
  let ?cmp = "compareFn key dsc"
  have s: "sortModels proto models sortBy dsc = Inr (Array_sort ?cmp models)"
    using assms(1) by (simp add: sortModels_def keyMap_lookup_def)
  have kinds: "(\<forall>m. \<exists>x. key m = KNum x) \<or> (\<forall>m. \<exists>s. key m = KStr s)"
    by (rule keyMap_kinds [OF assms(1)])
  have tr: "?cmp a c \<le> 0"
    if "a \<in> set models" "b \<in> set models" "c \<in> set models" "?cmp a b \<le> 0" "?cmp b c \<le> 0"
    for a b c
  proof -
    have n: "key a \<noteq> KNum NaN" "key b \<noteq> KNum NaN" "key c \<noteq> KNum NaN"
      using that(1-3) assms(2) by auto
    show ?thesis
    proof (cases dsc)
      case True
      then have "\<not> js_lt (key a) (key b)" "\<not> js_lt (key b) (key c)"
        using that(4,5) by (simp_all add: compareFn_le)
      then have "\<not> js_lt (key a) (key c)"
        using js_not_lt_trans [OF kinds n(3) n(2) n(1)] by blast
      with True show ?thesis by (simp add: compareFn_le)
    next
      case False
      then have "\<not> js_lt (key b) (key a)" "\<not> js_lt (key c) (key b)"
        using that(4,5) by (simp_all add: compareFn_le)
      then have "\<not> js_lt (key c) (key a)"
        using js_not_lt_trans [OF kinds n(1) n(2) n(3)] by blast
      with False show ?thesis by (simp add: compareFn_le)
    qed
  qed
  have "sorted_wrt (\<lambda>a b. ?cmp a b \<le> 0) (Array_sort ?cmp models)"
    by (rule sorted_wrt_Array_sort [of "set models" ?cmp]) (auto intro: compareFn_total tr)
  then have ordered: "sorted_wrt (\<lambda>a b. if dsc then \<not> js_lt (key a) (key b)
      else \<not> js_lt (key b) (key a)) (Array_sort ?cmp models)"
    by (simp only: compareFn_le)
  have stable: "filter (\<lambda>m. key m = k) (Array_sort ?cmp models) = filter (\<lambda>m. key m = k) models"
    for k
    by (rule filter_Array_sort) (simp add: compareFn_le js_lt_irrefl)
  show ?thesis
    unfolding s using ordered stable by (simp add: mset_Array_sort)
qed

text \<open>Names Beta, alpha, Gamma sorted by name, descending: Gamma, Beta, alpha.\<close>

theorem sortModels_name_descending:
  "keyMap ''name'' = Some (\<lambda>m. KStr (toLowerCase (name m))) \<and>
   map_sum id (map name)
     (sortModels False [sample_model ''x/b'' ''Beta'' ''1'', sample_model ''x/a'' ''alpha'' ''1'',
        sample_model ''x/g'' ''Gamma'' ''1''] ''name'' True)
     = Inr [''Gamma'', ''Beta'', ''alpha'']"
proof -
  let ?ms = "[sample_model ''x/b'' ''Beta'' ''1'', sample_model ''x/a'' ''alpha'' ''1'',
        sample_model ''x/g'' ''Gamma'' ''1'']"
  have k: "keyMap ''name'' = Some (\<lambda>m. KStr (toLowerCase (name m)))"
    by (simp add: keyMap_def)
  have n: "\<forall>m\<in>set ?ms. KStr (toLowerCase (name m)) \<noteq> KNum NaN"
    by simp
  have e: "map_sum id (map name) (sortModels False ?ms ''name'' True)
      = Inr [''Gamma'', ''Beta'', ''alpha'']"
    by code_simp
  from sortModels_stable_ordering [OF k n, of False True] k e show ?thesis
    by blast
qed

text \<open>
  Prompt prices \<^verbatim>\<open>"2"\<close>, \<^verbatim>\<open>"abc"\<close>, \<^verbatim>\<open>"1"\<close> sorted by prompt_price, ascending: the
  middle price parses to NaN, every comparison with it returns 0, and the sequence comes
  back as it was, with price 2 before price 1.
\<close>

theorem sortModels_unparsable_price:
  "sortModels False
     [sample_model ''x/two'' ''Two'' ''2'', sample_model ''x/bad'' ''Bad'' ''abc'',
        sample_model ''x/one'' ''One'' ''1''] ''prompt_price'' False
   = Inr [sample_model ''x/two'' ''Two'' ''2'', sample_model ''x/bad'' ''Bad'' ''abc'',
        sample_model ''x/one'' ''One'' ''1''] \<and>
   num_lt
     (getEffectivePrice (prompt (pricing (sample_model ''x/one'' ''One'' ''1'')))
        (id' (sample_model ''x/one'' ''One'' ''1'')))
     (getEffectivePrice (prompt (pricing (sample_model ''x/two'' ''Two'' ''2'')))
        (id' (sample_model ''x/two'' ''Two'' ''2'')))"
proof -
  have e: "sortModels False
     [sample_model ''x/two'' ''Two'' ''2'', sample_model ''x/bad'' ''Bad'' ''abc'',
        sample_model ''x/one'' ''One'' ''1''] ''prompt_price'' False
   = Inr [sample_model ''x/two'' ''Two'' ''2'', sample_model ''x/bad'' ''Bad'' ''abc'',
        sample_model ''x/one'' ''One'' ''1'']"
    by code_simp
  have p: "getEffectivePrice ''1'' ''x/one'' = Fin 1" "getEffectivePrice ''2'' ''x/two'' = Fin 2"
    by (simp_all add: getEffectivePrice_def parseFloat_defs)
  show ?thesis
    unfolding e by (simp add: sample_model_def p)
qed

end
